theory Spec2Isabelle
  imports Complex_Main "HOL-Library.Sublist"
begin

section \<open>The chat page of the multimodal RAG demo\<close>

text \<open>
  The repository holds two variants of one Streamlit script:
  \<^verbatim>\<open>src/app/src/home.py\<close> (called \<open>App\<close> below) and \<^verbatim>\<open>src/src/home.py\<close>
  (called \<open>Src\<close>). Streamlit runs the whole script from top to bottom on every user
  action. One run is modelled as a function from the helper results, the widget values
  and the state before the run to the state after it.

  \<^item> A Python \<open>str\<close> is a \<open>string\<close> holding its UTF-8 bytes; the only string operations
    of the scripts are concatenation, equality, emptiness and the substring test
    \<open>in\<close>, all of which UTF-8 preserves.
  \<^item> The two Python floats (temperature, top_p) are \<open>real\<close>: the scripts only pass
    them on and the widgets only compare them to bounds.
  \<^item> The helpers come from the utility module, which is not part of the sources.
    They are parameters: the record \<open>helpers\<close> fixes what each helper returns during
    one run. A different run may use a different record. Every property below is about
    runs in which the helpers return; a helper that raises is outside the model.
  \<^item> Page decoration (titles, headers, dividers, the page configuration) has no effect
    on session state, files or helper calls and is left out.
\<close>

subsection \<open>Data\<close>

text \<open>A chat message: the dict \<^verbatim>\<open>{"role": ..., "content": ...}\<close>.\<close>

record message =
  role :: string
  content :: string

text \<open>An uploaded file, as the script reads it: \<^verbatim>\<open>.name\<close> and \<^verbatim>\<open>.read()\<close>.\<close>

record uploaded_file =
  name :: string
  bytes_data :: string

text \<open>
  The values the widgets return in one run. \<open>upload_docs\<close>, \<open>doc_urls\<close> (\<open>App\<close> only) and
  \<open>embedding_model_id\<close> are only bound when the slider value contains \<open>Update\<close>; the
  scripts read them only there. \<open>chat_input\<close> is \<open>None\<close> when no prompt was submitted.
  \<open>clear_chat_history\<close> is what the button \<^verbatim>\<open>Clear Chat History\<close> returns.
\<close>

record widgets =
  option :: string
  temperature :: real
  max_token :: int
  top_p :: real
  top_k :: int
  stop_sequences :: string
  rag_on :: string
  upload_docs :: "uploaded_file list"
  doc_urls :: string
  embedding_model_id :: string
  clear_chat_history :: bool
  chat_input :: "string option"

text \<open>
  The file system, as far as the scripts touch it: the bytes of each file, and the set
  of paths at which \<^verbatim>\<open>open(path, 'wb')\<close> or the write that follows it raises (the
  directory is missing or read-only, the path is a directory, and so on).
\<close>

record filesystem =
  contents :: "string \<rightharpoonup> string"
  unwritable :: "string set"

text \<open>
  The helpers of the utility module. \<open>App\<close> calls \<^verbatim>\<open>bedrock_kb_injection()\<close> with no
  argument and unpacks two results; \<open>Src\<close> calls \<^verbatim>\<open>bedrock_kb_injection(file_path)\<close> and
  unpacks three. The three results of the latter are taken as the text that the
  f-string of the script renders them to. \<open>empty_directory\<close> returns nothing; its
  field is its effect on the file system.
\<close>

record helpers =
  read_key_value :: "string \<Rightarrow> string \<Rightarrow> string"
  bedrock_kb_injection_noarg :: "string \<times> string"
  bedrock_kb_injection :: "string \<Rightarrow> string \<times> string \<times> string"
  bedrock_kb_retrieval :: "string \<Rightarrow> string \<Rightarrow> string"
  bedrock_kb_retrieval_advanced ::
    "string \<Rightarrow> string \<Rightarrow> int \<Rightarrow> real \<Rightarrow> real \<Rightarrow> int \<Rightarrow> string \<Rightarrow> string"
  bedrock_textGen ::
    "string \<Rightarrow> string \<Rightarrow> int \<Rightarrow> real \<Rightarrow> real \<Rightarrow> int \<Rightarrow> string \<Rightarrow> string"
  empty_directory :: "string \<Rightarrow> filesystem \<Rightarrow> filesystem"

text \<open>A helper call with its arguments, as recorded in the log of a run.\<close>

datatype call =
  ReadKeyValue string string
| KbInjectionNoArg
| KbInjection string
| KbRetrieval string string
| KbRetrievalAdvanced string string int real real int string
| TextGen string string int real real int string
| EmptyDirectory string


text \<open>The three branches at the end of the script.\<close>

datatype handler = UpdateKnowledgeBase | Retrieval | Generation

text \<open>One \<^verbatim>\<open>st.chat_message(name, avatar=...).write(text)\<close>.\<close>

datatype display = ChatMessage string "string option" string

text \<open>
  The state a run works on. \<open>messages\<close> is the entry \<^verbatim>\<open>st.session_state["messages"]\<close>,
  \<open>None\<close> while the key is absent. \<open>files\<close> is the file system. \<open>shown\<close>, \<open>calls\<close> and
  \<open>entered\<close> are logs: what was written to the page, which helpers were called and
  which branch was entered.
\<close>

record world =
  messages :: "message list option"
  files :: filesystem
  shown :: "display list"
  calls :: "call list"
  entered :: "handler list"

text \<open>
  Reading \<^verbatim>\<open>st.session_state.messages\<close> while the key is absent raises
  \<open>AttributeError\<close>; a file that cannot be opened or written raises an \<open>OSError\<close>
  (\<open>FileNotFoundError\<close>, \<open>IsADirectoryError\<close>, \<open>PermissionError\<close> are subclasses of it).
  A run that raises stops there; session state and files keep what was written before.
\<close>

datatype exn = AttributeError | OSError

datatype outcome = Done world | Raised exn world

fun and_then :: "outcome \<Rightarrow> (world \<Rightarrow> outcome) \<Rightarrow> outcome" where
  "and_then (Done s) f = f s"
| "and_then (Raised e s) f = Raised e s"

fun final :: "outcome \<Rightarrow> world" where
  "final (Done s) = s"
| "final (Raised e s) = s"

fun raised :: "outcome \<Rightarrow> bool" where
  "raised (Done s) = False"
| "raised (Raised e s) = True"

subsection \<open>Constants of the scripts\<close>

definition greeting :: message where
  "greeting = \<lparr>role = ''assistant'', content = ''I am your assistant. How can I help today?''\<rparr>"

text \<open>
  The text appended to every reply: two newlines, a space, the pen sign U+2712 with
  the variation selector U+FE0E (six bytes in UTF-8), then the words.
\<close>

definition signature :: string where
  "signature = [CHR 0x0A, CHR 0x0A] @ '' '' @
     [CHR 0xE2, CHR 0x9C, CHR 0x92, CHR 0xEF, CHR 0xB8, CHR 0x8E] @
     ''Content created by using: ''"

text \<open>The two avatars: U+1F399 U+FE0F (studio microphone) and U+1F999 (llama).\<close>

definition avatar_microphone :: string where
  "avatar_microphone = [CHR 0xF0, CHR 0x9F, CHR 0x8E, CHR 0x99, CHR 0xEF, CHR 0xB8, CHR 0x8F]"

definition avatar_llama :: string where
  "avatar_llama = [CHR 0xF0, CHR 0x9F, CHR 0xA6, CHR 0x99]"

text \<open>\<open>Src\<close> only: \<^verbatim>\<open>file_path = "./data/"\<close>.\<close>

definition file_path :: string where
  "file_path = ''./data/''"

subsection \<open>Primitive effects\<close>

definition log_call :: "call \<Rightarrow> world \<Rightarrow> world" where
  "log_call c s = s\<lparr>calls := calls s @ [c]\<rparr>"

definition enter :: "handler \<Rightarrow> world \<Rightarrow> world" where
  "enter b s = s\<lparr>entered := entered s @ [b]\<rparr>"

definition chat_message_write :: "string \<Rightarrow> string option \<Rightarrow> string \<Rightarrow> world \<Rightarrow> world" where
  "chat_message_write who av txt s = s\<lparr>shown := shown s @ [ChatMessage who av txt]\<rparr>"

text \<open>\<^verbatim>\<open>st.session_state.messages.append(m)\<close>.\<close>

definition messages_append :: "message \<Rightarrow> world \<Rightarrow> outcome" where
  "messages_append m s =
     (case messages s of
        None \<Rightarrow> Raised AttributeError s
      | Some ms \<Rightarrow> Done (s\<lparr>messages := Some (ms @ [m])\<rparr>))"

subsection \<open>The script, top to bottom\<close>

text \<open>
  Lines 16-17: both variants read two keys of the configuration file; \<open>App\<close> names it
  \<^verbatim>\<open>./.aoss_config.txt\<close>, \<open>Src\<close> \<^verbatim>\<open>.aoss_config.txt\<close>. The two values read are never
  used afterwards.
\<close>

definition read_config :: "string \<Rightarrow> helpers \<Rightarrow> world \<Rightarrow> world" where
  "read_config cfg h s =
     (let aoss_host = read_key_value h cfg ''AOSS_host_name'';
          s = log_call (ReadKeyValue cfg ''AOSS_host_name'') s;
          aoss_index = read_key_value h cfg ''AOSS_index_name'';
          s = log_call (ReadKeyValue cfg ''AOSS_index_name'') s
      in s)"

text \<open>
  The slider: \<^verbatim>\<open>rag_update = rag_retrieval = False\<close>, then
  \<^verbatim>\<open>if 'Update' in rag_on: ... rag_update = True\<close>,
  \<^verbatim>\<open>elif 'Retrieval' in rag_on: rag_retrieval = True\<close>. Python's \<open>in\<close> on strings is the
  contiguous-substring test, \<open>sublist\<close>. The result is the pair
  \<open>(rag_update, rag_retrieval)\<close>.
\<close>

definition rag_flags :: "string \<Rightarrow> bool \<times> bool" where
  "rag_flags slider =
     (if sublist ''Update'' slider then (True, False)
      else if sublist ''Retrieval'' slider then (False, True)
      else (False, False))"

text \<open>
  The button: \<^verbatim>\<open>if st.button("Clear Chat History"):\<close> first empties the old list in
  place (which reads the key), then binds the key to a new one-element list.
\<close>

definition clear_chat :: "widgets \<Rightarrow> world \<Rightarrow> outcome" where
  "clear_chat w s =
     (if clear_chat_history w then
        (case messages s of
           None \<Rightarrow> Raised AttributeError s
         | Some ms \<Rightarrow> Done (s\<lparr>messages := Some []\<rparr>\<lparr>messages := Some [greeting]\<rparr>))
      else Done s)"

text \<open>\<^verbatim>\<open>if "messages" not in st.session_state: st.session_state["messages"] = [...]\<close>.\<close>

definition init_messages :: "world \<Rightarrow> world" where
  "init_messages s =
     (case messages s of
        None \<Rightarrow> s\<lparr>messages := Some [greeting]\<rparr>
      | Some ms \<Rightarrow> s)"

text \<open>\<^verbatim>\<open>for msg in st.session_state.messages: st.chat_message(msg["role"]).write(msg["content"])\<close>.\<close>

fun write_history :: "message list \<Rightarrow> world \<Rightarrow> world" where
  "write_history [] s = s"
| "write_history (msg # rest) s =
     write_history rest (chat_message_write (role msg) None (content msg) s)"

definition render_history :: "world \<Rightarrow> outcome" where
  "render_history s =
     (case messages s of
        None \<Rightarrow> Raised AttributeError s
      | Some ms \<Rightarrow> Done (write_history ms s))"

text \<open>The update branch of \<open>App\<close> (lines 75-80; the rest of the branch is a string literal).\<close>

definition update_app :: "helpers \<Rightarrow> widgets \<Rightarrow> world \<Rightarrow> outcome" where
  "update_app h w s =
     (let (msg, status) = bedrock_kb_injection_noarg h;
          s = log_call KbInjectionNoArg s
      in and_then (messages_append \<lparr>role = ''assistant'', content = msg\<rparr> s)
           (\<lambda>s. Done (chat_message_write ''ai'' (Some avatar_microphone) msg s)))"

text \<open>
  The update branch of \<open>Src\<close> (lines 76-88). The loop writes each upload to
  \<^verbatim>\<open>file_path + upload_doc.name\<close>:
  \<^verbatim>\<open>with open(file_path+upload_doc.name, 'wb') as f: f.write(bytes_data)\<close>.
  The first upload that cannot be written raises and ends the run; the uploads before it
  stay written.
\<close>

fun write_uploads :: "uploaded_file list \<Rightarrow> world \<Rightarrow> outcome" where
  "write_uploads [] s = Done s"
| "write_uploads (upload_doc # rest) s =
     (if file_path @ name upload_doc \<in> unwritable (files s) then Raised OSError s
      else write_uploads rest
        (s\<lparr>files := (files s)\<lparr>contents :=
             (contents (files s))(file_path @ name upload_doc \<mapsto> bytes_data upload_doc)\<rparr>\<rparr>))"

definition update_src :: "helpers \<Rightarrow> widgets \<Rightarrow> world \<Rightarrow> outcome" where
  "update_src h w s =
     (if upload_docs w \<noteq> [] then
        (let s = log_call (EmptyDirectory file_path)
                   (s\<lparr>files := empty_directory h file_path (files s)\<rparr>);
             upload_doc_names = map name (upload_docs w)
         in and_then (write_uploads (upload_docs w) s)
           (\<lambda>s. let (stats, status, kb_id) = bedrock_kb_injection h file_path;
                     s = log_call (KbInjection file_path) s;
                     msg = ''Total '' @ stats @ ''  to Amazon Bedrock Knowledge Base: '' @
                           kb_id @ ''  with status: '' @ status @ ''.''
                 in and_then (messages_append \<lparr>role = ''assistant'', content = msg\<rparr> s)
                      (\<lambda>s. Done (chat_message_write ''ai'' (Some avatar_microphone) msg s))))
      else Done s)"

text \<open>
  The retrieval branches. \<^verbatim>\<open>if prompt := st.chat_input():\<close> runs its body when the
  prompt is neither \<open>None\<close> nor empty.
\<close>

definition retrieval_app :: "helpers \<Rightarrow> widgets \<Rightarrow> world \<Rightarrow> outcome" where
  "retrieval_app h w s =
     (case chat_input w of
        None \<Rightarrow> Done s
      | Some prompt \<Rightarrow>
          if prompt = [] then Done s
          else and_then (messages_append \<lparr>role = ''user'', content = prompt\<rparr> s)
            (\<lambda>s. let s = chat_message_write ''user'' None prompt s;
                      msg = bedrock_kb_retrieval h prompt (option w);
                      s = log_call (KbRetrieval prompt (option w)) s;
                      msg = msg @ signature @ option w
                  in and_then (messages_append \<lparr>role = ''assistant'', content = msg\<rparr> s)
                       (\<lambda>s. Done (chat_message_write ''ai'' (Some avatar_llama) msg s))))"

definition retrieval_src :: "helpers \<Rightarrow> widgets \<Rightarrow> world \<Rightarrow> outcome" where
  "retrieval_src h w s =
     (case chat_input w of
        None \<Rightarrow> Done s
      | Some prompt \<Rightarrow>
          if prompt = [] then Done s
          else and_then (messages_append \<lparr>role = ''user'', content = prompt\<rparr> s)
            (\<lambda>s. let s = chat_message_write ''user'' None prompt s;
                      msg = bedrock_kb_retrieval_advanced h prompt (option w) (max_token w)
                              (temperature w) (top_p w) (top_k w) (stop_sequences w);
                      s = log_call (KbRetrievalAdvanced prompt (option w) (max_token w)
                              (temperature w) (top_p w) (top_k w) (stop_sequences w)) s;
                      msg = msg @ signature @ option w
                  in and_then (messages_append \<lparr>role = ''assistant'', content = msg\<rparr> s)
                       (\<lambda>s. Done (chat_message_write ''ai'' (Some avatar_llama) msg s))))"

text \<open>The generation branch, the same text in both variants.\<close>

definition generation :: "helpers \<Rightarrow> widgets \<Rightarrow> world \<Rightarrow> outcome" where
  "generation h w s =
     (case chat_input w of
        None \<Rightarrow> Done s
      | Some prompt \<Rightarrow>
          if prompt = [] then Done s
          else and_then (messages_append \<lparr>role = ''user'', content = prompt\<rparr> s)
            (\<lambda>s. let s = chat_message_write ''user'' None prompt s;
                      msg = bedrock_textGen h (option w) prompt (max_token w)
                              (temperature w) (top_p w) (top_k w) (stop_sequences w);
                      s = log_call (TextGen (option w) prompt (max_token w)
                              (temperature w) (top_p w) (top_k w) (stop_sequences w)) s;
                      msg = msg @ signature @ option w
                  in and_then (messages_append \<lparr>role = ''assistant'', content = msg\<rparr> s)
                       (\<lambda>s. Done (chat_message_write ''ai'' (Some avatar_llama) msg s))))"

text \<open>The configuration file, as each variant names it.\<close>

datatype variant = App | Src

fun config_file :: "variant \<Rightarrow> string" where
  "config_file App = ''./.aoss_config.txt''"
| "config_file Src = ''.aoss_config.txt''"

text \<open>One run of each script.\<close>

definition home_app :: "helpers \<Rightarrow> widgets \<Rightarrow> world \<Rightarrow> outcome" where
  "home_app h w s =
     (let s = read_config (config_file App) h s;
          (rag_update, rag_retrieval) = rag_flags (rag_on w)
      in and_then (clear_chat w s)
        (\<lambda>s. and_then (render_history (init_messages s))
          (\<lambda>s. if rag_update then update_app h w (enter UpdateKnowledgeBase s)
                else if rag_retrieval then retrieval_app h w (enter Retrieval s)
                else generation h w (enter Generation s))))"

definition home_src :: "helpers \<Rightarrow> widgets \<Rightarrow> world \<Rightarrow> outcome" where
  "home_src h w s =
     (let s = read_config (config_file Src) h s;
          (rag_update, rag_retrieval) = rag_flags (rag_on w)
      in and_then (clear_chat w s)
        (\<lambda>s. and_then (render_history (init_messages s))
          (\<lambda>s. if rag_update then update_src h w (enter UpdateKnowledgeBase s)
                else if rag_retrieval then retrieval_src h w (enter Retrieval s)
                else generation h w (enter Generation s))))"

fun home :: "variant \<Rightarrow> helpers \<Rightarrow> widgets \<Rightarrow> world \<Rightarrow> outcome" where
  "home App = home_app"
| "home Src = home_src"

subsection \<open>Notions used to state the properties\<close>

text \<open>
  The chat history with which a run reaches its branch: what the button and the
  initialisation leave in session state.
\<close>

definition history_at_dispatch :: "widgets \<Rightarrow> world \<Rightarrow> message list" where
  "history_at_dispatch w s =
     (case messages (init_messages (final (clear_chat w s))) of
        None \<Rightarrow> []
      | Some ms \<Rightarrow> ms)"

text \<open>
  The place in the sidebar where a run can raise: the button is pressed while the key
  \<open>messages\<close> is absent.
\<close>

definition button_raises :: "widgets \<Rightarrow> world \<Rightarrow> bool" where
  "button_raises w s = (clear_chat_history w \<and> messages s = None)"

text \<open>A prompt that makes \<^verbatim>\<open>if prompt := st.chat_input():\<close> run its body.\<close>

definition submitted :: "widgets \<Rightarrow> string \<Rightarrow> bool" where
  "submitted w p = (chat_input w = Some p \<and> p \<noteq> [])"

text \<open>
  The helpers that call the hosted service (the \<open>bedrock_\<close> ones); \<open>read_key_value\<close>
  and \<open>empty_directory\<close> work on local files.
\<close>

fun is_remote :: "call \<Rightarrow> bool" where
  "is_remote (ReadKeyValue _ _) = False"
| "is_remote KbInjectionNoArg = True"
| "is_remote (KbInjection _) = True"
| "is_remote (KbRetrieval _ _) = True"
| "is_remote (KbRetrievalAdvanced _ _ _ _ _ _ _) = True"
| "is_remote (TextGen _ _ _ _ _ _ _) = True"
| "is_remote (EmptyDirectory _) = False"

text \<open>
  What \<^verbatim>\<open>st.number_input(..., min_value=lo, max_value=hi)\<close> guarantees of the value it
  returns; an omitted bound is \<open>None\<close>. The bounds are those of lines 31-34 of \<open>App\<close>
  (48-51 of \<open>Src\<close>).
\<close>

definition number_input_ok :: "'a::linorder option \<Rightarrow> 'a option \<Rightarrow> 'a \<Rightarrow> bool" where
  "number_input_ok min_value max_value v =
     ((case min_value of None \<Rightarrow> True | Some lo \<Rightarrow> lo \<le> v) \<and>
      (case max_value of None \<Rightarrow> True | Some hi \<Rightarrow> v \<le> hi))"

definition sidebar_inputs_ok :: "widgets \<Rightarrow> bool" where
  "sidebar_inputs_ok w =
     (number_input_ok (Some 0.0) (Some 1.0) (temperature w) \<and>
      number_input_ok (Some 0) None (max_token w) \<and>
      number_input_ok (Some 0.1) None (top_p w) \<and>
      number_input_ok (Some 1) None (top_k w))"


text \<open>
  The session states a browser session can be in: it starts with the key \<open>messages\<close>
  absent, and every run (whatever the widgets and helpers give, and whether or not it
  raises) leaves the next state.
\<close>

inductive reachable :: "variant \<Rightarrow> world \<Rightarrow> bool" where
  fresh: "messages s = None \<Longrightarrow> reachable v s"
| rerun: "reachable v s \<Longrightarrow> reachable v (final (home v h w s))"

text \<open>
  What the helper of the active branch returns for the prompt \<open>p\<close>: the retrieval
  helper of the variant when \<open>rag_retrieval\<close> is set, \<open>bedrock_textGen\<close> otherwise.
\<close>

definition helper_reply :: "variant \<Rightarrow> helpers \<Rightarrow> widgets \<Rightarrow> string \<Rightarrow> string" where
  "helper_reply v h w p =
     (if snd (rag_flags (rag_on w)) then
        (case v of
           App \<Rightarrow> bedrock_kb_retrieval h p (option w)
         | Src \<Rightarrow> bedrock_kb_retrieval_advanced h p (option w) (max_token w)
                    (temperature w) (top_p w) (top_k w) (stop_sequences w))
      else bedrock_textGen h (option w) p (max_token w)
             (temperature w) (top_p w) (top_k w) (stop_sequences w))"

text \<open>
  Two helper records that return the same values; they may differ in what
  \<open>empty_directory\<close> does to the files.
\<close>

definition same_returns :: "helpers \<Rightarrow> helpers \<Rightarrow> bool" where
  "same_returns h1 h2 =
     (read_key_value h1 = read_key_value h2 \<and>
      bedrock_kb_injection_noarg h1 = bedrock_kb_injection_noarg h2 \<and>
      bedrock_kb_injection h1 = bedrock_kb_injection h2 \<and>
      bedrock_kb_retrieval h1 = bedrock_kb_retrieval h2 \<and>
      bedrock_kb_retrieval_advanced h1 = bedrock_kb_retrieval_advanced h2 \<and>
      bedrock_textGen h1 = bedrock_textGen h2)"

text \<open>
  Every upload of this run can be written: none of the paths that the loop of \<open>Src\<close>
  opens is unwritable once \<open>empty_directory\<close> has run.
\<close>

definition uploads_writable :: "helpers \<Rightarrow> widgets \<Rightarrow> world \<Rightarrow> bool" where
  "uploads_writable h w s =
     list_all (\<lambda>upload_doc. file_path @ name upload_doc \<notin>
                 unwritable (empty_directory h file_path (files s)))
       (upload_docs w)"

text \<open>
  What a run may add to the chat history, and the remote helper calls that go with it.
  Either nothing is added and no remote helper is called; or the one message added is
  the text that \<open>bedrock_kb_injection\<close> returned (\<open>App\<close>: its first result as it is;
  \<open>Src\<close>: its three results in the fixed status line); or the prompt is added, followed
  by the text that the one helper called for this prompt returned, with \<open>signature\<close> and
  the model id appended. In no case does the script compute a reply of its own.
\<close>

definition delegated ::
  "variant \<Rightarrow> helpers \<Rightarrow> widgets \<Rightarrow> message list \<Rightarrow> call list \<Rightarrow> bool" where
  "delegated v h w added called =
     (added = [] \<and> called = [] \<or>
      v = App \<and> called = [KbInjectionNoArg] \<and>
        added = [\<lparr>role = ''assistant'', content = fst (bedrock_kb_injection_noarg h)\<rparr>] \<or>
      v = Src \<and> called = [KbInjection file_path] \<and>
        added = [\<lparr>role = ''assistant'',
          content = ''Total '' @ fst (bedrock_kb_injection h file_path) @
            ''  to Amazon Bedrock Knowledge Base: '' @
            snd (snd (bedrock_kb_injection h file_path)) @
            ''  with status: '' @ fst (snd (bedrock_kb_injection h file_path)) @ ''.''\<rparr>] \<or>
      (\<exists>p. v = App \<and> called = [KbRetrieval p (option w)] \<and>
        added = [\<lparr>role = ''user'', content = p\<rparr>,
          \<lparr>role = ''assistant'',
           content = bedrock_kb_retrieval h p (option w) @ signature @ option w\<rparr>]) \<or>
      (\<exists>p. v = Src \<and>
        called = [KbRetrievalAdvanced p (option w) (max_token w) (temperature w) (top_p w)
          (top_k w) (stop_sequences w)] \<and>
        added = [\<lparr>role = ''user'', content = p\<rparr>,
          \<lparr>role = ''assistant'',
           content = bedrock_kb_retrieval_advanced h p (option w) (max_token w)
             (temperature w) (top_p w) (top_k w) (stop_sequences w) @
             signature @ option w\<rparr>]) \<or>
      (\<exists>p. called = [TextGen (option w) p (max_token w) (temperature w) (top_p w) (top_k w)
          (stop_sequences w)] \<and>
        added = [\<lparr>role = ''user'', content = p\<rparr>,
          \<lparr>role = ''assistant'',
           content = bedrock_textGen h (option w) p (max_token w)
             (temperature w) (top_p w) (top_k w) (stop_sequences w) @
             signature @ option w\<rparr>]))"

subsection \<open>Sample inputs\<close>

text \<open>
  The widget values of a user who leaves the sidebar defaults in place (first model,
  0.1, 1024, 0.85, 40, the stop sequence of the script, no upload, no URL, button not
  pressed), for a given slider value and prompt. The embedding model is the one that
  both variants offer; no branch reads it.
\<close>

definition sample_widgets :: "string \<Rightarrow> string option \<Rightarrow> widgets" where
  "sample_widgets slider prompt =
     \<lparr>option = ''anthropic.claude-3-haiku-20240307-v1:0'',
      temperature = 0.1, max_token = 1024, top_p = 0.85, top_k = 40,
      stop_sequences = [CHR 0x0A, CHR 0x0A] @ ''Human'',
      rag_on = slider, upload_docs = [], doc_urls = [],
      embedding_model_id = ''amazon.titan-embed-image-v1'',
      clear_chat_history = False, chat_input = prompt\<rparr>"

text \<open>The same user in update mode with one upload.\<close>

definition sample_upload :: widgets where
  "sample_upload =
     (sample_widgets ''Update'' None)
       \<lparr>upload_docs := [\<lparr>name = ''a.pdf'', bytes_data = ''%PDF''\<rparr>]\<rparr>"

text \<open>Helpers with fixed answers.\<close>

definition sample_helpers :: helpers where
  "sample_helpers =
     \<lparr>read_key_value = (\<lambda>file key. ''demo''),
      bedrock_kb_injection_noarg = (''Injection finished'', ''COMPLETE''),
      bedrock_kb_injection = (\<lambda>path. (''3 files'', ''COMPLETE'', ''KB1'')),
      bedrock_kb_retrieval = (\<lambda>prompt model. ''retrieved''),
      bedrock_kb_retrieval_advanced = (\<lambda>prompt model n t p k stop. ''retrieved''),
      bedrock_textGen = (\<lambda>model prompt n t p k stop. ''generated''),
      empty_directory = (\<lambda>path fs. fs\<lparr>contents := Map.empty\<rparr>)\<rparr>"

text \<open>
  A browser session before its first run, and one that holds two old messages, both on
  a file system with no file, where every path can be written.
\<close>

definition no_files :: filesystem where
  "no_files = \<lparr>contents = Map.empty, unwritable = {}\<rparr>"

definition fresh_session :: world where
  "fresh_session = \<lparr>messages = None, files = no_files, shown = [], calls = [], entered = []\<rparr>"

definition old_session :: world where
  "old_session =
     \<lparr>messages = Some [\<lparr>role = ''user'', content = ''hello''\<rparr>,
                        \<lparr>role = ''assistant'', content = ''hi''\<rparr>],
      files = no_files, shown = [], calls = [], entered = []\<rparr>"

section \<open>Properties\<close>

subsection \<open>What one run computes\<close>

lemma write_history_eq:
  "write_history ms s =
     s\<lparr>shown := shown s @ map (\<lambda>m. ChatMessage (role m) None (content m)) ms\<rparr>"
  by (induction ms arbitrary: s) (simp_all add: chat_message_write_def)

lemma write_uploads_cases:
  obtains (written) s' where "write_uploads us s = Done s'"
      and "messages s' = messages s" and "shown s' = shown s"
      and "calls s' = calls s" and "entered s' = entered s"
      and "list_all (\<lambda>u. file_path @ name u \<notin> unwritable (files s)) us"
  | (failed) s' where "write_uploads us s = Raised OSError s'"
      and "messages s' = messages s" and "shown s' = shown s"
      and "calls s' = calls s" and "entered s' = entered s"
      and "\<not> list_all (\<lambda>u. file_path @ name u \<notin> unwritable (files s)) us"
proof -
  have "(\<exists>s'. write_uploads us s = Done s' \<and>
           messages s' = messages s \<and> shown s' = shown s \<and>
           calls s' = calls s \<and> entered s' = entered s \<and>
           list_all (\<lambda>u. file_path @ name u \<notin> unwritable (files s)) us) \<or>
        (\<exists>s'. write_uploads us s = Raised OSError s' \<and>
           messages s' = messages s \<and> shown s' = shown s \<and>
           calls s' = calls s \<and> entered s' = entered s \<and>
           \<not> list_all (\<lambda>u. file_path @ name u \<notin> unwritable (files s)) us)"
  proof (induction us arbitrary: s)
    case Nil
    then show ?case by simp
  next
    case (Cons u us)
    show ?case
    proof (cases "file_path @ name u \<in> unwritable (files s)")
      case True
      then show ?thesis by simp
    next
      case False
      let ?s = "s\<lparr>files := (files s)\<lparr>contents :=
             (contents (files s))(file_path @ name u \<mapsto> bytes_data u)\<rparr>\<rparr>"
      from Cons.IH [of ?s] False show ?thesis
        by (elim disjE exE conjE) simp_all
    qed
  qed
  then show ?thesis
    using written failed by blast
qed

lemmas script_defs =
  home_app_def home_src_def read_config_def clear_chat_def init_messages_def
  render_history_def update_app_def retrieval_app_def retrieval_src_def
  generation_def messages_append_def log_call_def enter_def chat_message_write_def Let_def
  write_history_eq

lemma history_at_dispatch_eq:
  "history_at_dispatch w s =
     (if clear_chat_history w then [greeting]
      else (case messages s of None \<Rightarrow> [greeting] | Some ms \<Rightarrow> ms))"
  by (simp add: history_at_dispatch_def clear_chat_def init_messages_def split: option.splits)

lemma home_raises:
  "button_raises w s \<Longrightarrow>
   home v h w s = Raised AttributeError (read_config (config_file v) h s)"
  by (cases v) (auto simp: script_defs button_raises_def split: prod.splits)

lemma home_generation:
  "\<not> button_raises w s \<Longrightarrow> rag_flags (rag_on w) = (False, False) \<Longrightarrow> submitted w p \<Longrightarrow>
   home v h w s = Done (s\<lparr>
     messages := Some (history_at_dispatch w s @ [\<lparr>role = ''user'', content = p\<rparr>,
        \<lparr>role = ''assistant'', content = bedrock_textGen h (option w) p (max_token w)
           (temperature w) (top_p w) (top_k w) (stop_sequences w) @ signature @ option w\<rparr>]),
     shown := shown s @
        map (\<lambda>m. ChatMessage (role m) None (content m)) (history_at_dispatch w s) @
        [ChatMessage ''user'' None p, ChatMessage ''ai'' (Some avatar_llama)
           (bedrock_textGen h (option w) p (max_token w)
              (temperature w) (top_p w) (top_k w) (stop_sequences w) @ signature @ option w)],
     calls := calls s @ [ReadKeyValue (config_file v) ''AOSS_host_name'',
        ReadKeyValue (config_file v) ''AOSS_index_name'',
        TextGen (option w) p (max_token w) (temperature w) (top_p w) (top_k w)
          (stop_sequences w)],
     entered := entered s @ [Generation]\<rparr>)"
  by (cases s; cases v)
    (auto simp: history_at_dispatch_eq button_raises_def submitted_def script_defs
      split: option.splits)

lemma home_retrieval_app:
  "\<not> button_raises w s \<Longrightarrow> rag_flags (rag_on w) = (False, True) \<Longrightarrow> submitted w p \<Longrightarrow>
   home App h w s = Done (s\<lparr>
     messages := Some (history_at_dispatch w s @ [\<lparr>role = ''user'', content = p\<rparr>,
        \<lparr>role = ''assistant'',
         content = bedrock_kb_retrieval h p (option w) @ signature @ option w\<rparr>]),
     shown := shown s @
        map (\<lambda>m. ChatMessage (role m) None (content m)) (history_at_dispatch w s) @
        [ChatMessage ''user'' None p, ChatMessage ''ai'' (Some avatar_llama)
           (bedrock_kb_retrieval h p (option w) @ signature @ option w)],
     calls := calls s @ [ReadKeyValue (config_file App) ''AOSS_host_name'',
        ReadKeyValue (config_file App) ''AOSS_index_name'',
        KbRetrieval p (option w)],
     entered := entered s @ [Retrieval]\<rparr>)"
  by (cases s)
    (auto simp: history_at_dispatch_eq button_raises_def submitted_def script_defs
      split: option.splits)

lemma home_retrieval_src:
  "\<not> button_raises w s \<Longrightarrow> rag_flags (rag_on w) = (False, True) \<Longrightarrow> submitted w p \<Longrightarrow>
   home Src h w s = Done (s\<lparr>
     messages := Some (history_at_dispatch w s @ [\<lparr>role = ''user'', content = p\<rparr>,
        \<lparr>role = ''assistant'', content = bedrock_kb_retrieval_advanced h p (option w)
           (max_token w) (temperature w) (top_p w) (top_k w) (stop_sequences w) @
           signature @ option w\<rparr>]),
     shown := shown s @
        map (\<lambda>m. ChatMessage (role m) None (content m)) (history_at_dispatch w s) @
        [ChatMessage ''user'' None p, ChatMessage ''ai'' (Some avatar_llama)
           (bedrock_kb_retrieval_advanced h p (option w) (max_token w)
              (temperature w) (top_p w) (top_k w) (stop_sequences w) @ signature @ option w)],
     calls := calls s @ [ReadKeyValue (config_file Src) ''AOSS_host_name'',
        ReadKeyValue (config_file Src) ''AOSS_index_name'',
        KbRetrievalAdvanced p (option w) (max_token w) (temperature w) (top_p w) (top_k w)
          (stop_sequences w)],
     entered := entered s @ [Retrieval]\<rparr>)"
  by (cases s)
    (auto simp: history_at_dispatch_eq button_raises_def submitted_def script_defs
      split: option.splits)

lemma home_idle:
  "\<not> button_raises w s \<Longrightarrow> rag_flags (rag_on w) = (False, b) \<Longrightarrow>
   \<forall>p. \<not> submitted w p \<Longrightarrow>
   home v h w s = Done (s\<lparr>
     messages := Some (history_at_dispatch w s),
     shown := shown s @
        map (\<lambda>m. ChatMessage (role m) None (content m)) (history_at_dispatch w s),
     calls := calls s @ [ReadKeyValue (config_file v) ''AOSS_host_name'',
        ReadKeyValue (config_file v) ''AOSS_index_name''],
     entered := entered s @ [if b then Retrieval else Generation]\<rparr>)"
  by (cases s; cases v)
    (auto simp: history_at_dispatch_eq button_raises_def submitted_def script_defs
      split: option.splits)

lemma home_update_app:
  "\<not> button_raises w s \<Longrightarrow> rag_flags (rag_on w) = (True, b) \<Longrightarrow>
   home App h w s = Done (s\<lparr>
     messages := Some (history_at_dispatch w s @
        [\<lparr>role = ''assistant'', content = fst (bedrock_kb_injection_noarg h)\<rparr>]),
     shown := shown s @
        map (\<lambda>m. ChatMessage (role m) None (content m)) (history_at_dispatch w s) @
        [ChatMessage ''ai'' (Some avatar_microphone) (fst (bedrock_kb_injection_noarg h))],
     calls := calls s @ [ReadKeyValue (config_file App) ''AOSS_host_name'',
        ReadKeyValue (config_file App) ''AOSS_index_name'', KbInjectionNoArg],
     entered := entered s @ [UpdateKnowledgeBase]\<rparr>)"
  by (cases s)
    (auto simp: history_at_dispatch_eq button_raises_def script_defs
      split: option.splits prod.splits)

lemma home_update_src_dispatch:
  "\<not> button_raises w s \<Longrightarrow> rag_flags (rag_on w) = (True, b) \<Longrightarrow>
   home Src h w s = update_src h w (s\<lparr>
     messages := Some (history_at_dispatch w s),
     shown := shown s @
        map (\<lambda>m. ChatMessage (role m) None (content m)) (history_at_dispatch w s),
     calls := calls s @ [ReadKeyValue (config_file Src) ''AOSS_host_name'',
        ReadKeyValue (config_file Src) ''AOSS_index_name''],
     entered := entered s @ [UpdateKnowledgeBase]\<rparr>)"
  by (cases s)
    (auto simp: history_at_dispatch_eq button_raises_def script_defs
      split: option.splits prod.splits)

lemma home_update_src_empty:
  "\<not> button_raises w s \<Longrightarrow> rag_flags (rag_on w) = (True, b) \<Longrightarrow> upload_docs w = [] \<Longrightarrow>
   home Src h w s = Done (s\<lparr>
     messages := Some (history_at_dispatch w s),
     shown := shown s @
        map (\<lambda>m. ChatMessage (role m) None (content m)) (history_at_dispatch w s),
     calls := calls s @ [ReadKeyValue (config_file Src) ''AOSS_host_name'',
        ReadKeyValue (config_file Src) ''AOSS_index_name''],
     entered := entered s @ [UpdateKnowledgeBase]\<rparr>)"
  unfolding home_update_src_dispatch [of w s b h]
  by (simp add: update_src_def)

lemma update_src_written:
  assumes "upload_docs w \<noteq> []" and "uploads_writable h w s" and "messages s = Some ms"
  shows "\<exists>s'. update_src h w s = Done s' \<and>
     messages s' = Some (ms @ [\<lparr>role = ''assistant'',
          content = ''Total '' @ fst (bedrock_kb_injection h file_path) @
           ''  to Amazon Bedrock Knowledge Base: '' @
           snd (snd (bedrock_kb_injection h file_path)) @
           ''  with status: '' @ fst (snd (bedrock_kb_injection h file_path)) @ ''.''\<rparr>]) \<and>
     calls s' = calls s @ [EmptyDirectory file_path, KbInjection file_path] \<and>
     entered s' = entered s"
proof -
  let ?s = "log_call (EmptyDirectory file_path)
              (s\<lparr>files := empty_directory h file_path (files s)\<rparr>)"
  have f: "files ?s = empty_directory h file_path (files s)"
    by (simp add: log_call_def)
  show ?thesis
  proof (cases rule: write_uploads_cases [where us = "upload_docs w" and s = ?s])
    case (written s')
    then show ?thesis
      using assms(1,3)
      by (auto simp: update_src_def Let_def messages_append_def log_call_def
          chat_message_write_def split: prod.splits)
  next
    case (failed s')
    then show ?thesis
      using assms(2) by (simp add: uploads_writable_def f)
  qed
qed

lemma update_src_failed:
  assumes "upload_docs w \<noteq> []" and "\<not> uploads_writable h w s"
  shows "\<exists>s'. update_src h w s = Raised OSError s' \<and>
     messages s' = messages s \<and> shown s' = shown s \<and>
     calls s' = calls s @ [EmptyDirectory file_path] \<and>
     entered s' = entered s"
proof -
  let ?s = "log_call (EmptyDirectory file_path)
              (s\<lparr>files := empty_directory h file_path (files s)\<rparr>)"
  have f: "files ?s = empty_directory h file_path (files s)"
    by (simp add: log_call_def)
  show ?thesis
  proof (cases rule: write_uploads_cases [where us = "upload_docs w" and s = ?s])
    case (written s')
    then show ?thesis
      using assms(2) by (simp add: uploads_writable_def f)
  next
    case (failed s')
    then show ?thesis
      using assms(1)
      by (simp add: update_src_def Let_def log_call_def)
  qed
qed

lemma uploads_writable_dispatch:
  "uploads_writable h w (s\<lparr>messages := m, shown := sh, calls := cs, entered := en\<rparr>) =
   uploads_writable h w s"
  by (simp add: uploads_writable_def)

lemma home_update_src:
  assumes "\<not> button_raises w s" "rag_flags (rag_on w) = (True, b)" "upload_docs w \<noteq> []"
    and "uploads_writable h w s"
  shows "messages (final (home Src h w s)) = Some (history_at_dispatch w s @
        [\<lparr>role = ''assistant'',
          content = ''Total '' @ fst (bedrock_kb_injection h file_path) @
           ''  to Amazon Bedrock Knowledge Base: '' @
           snd (snd (bedrock_kb_injection h file_path)) @
           ''  with status: '' @ fst (snd (bedrock_kb_injection h file_path)) @ ''.''\<rparr>])"
    and "calls (final (home Src h w s)) =
      calls s @ [ReadKeyValue (config_file Src) ''AOSS_host_name'',
        ReadKeyValue (config_file Src) ''AOSS_index_name'',
        EmptyDirectory file_path, KbInjection file_path]"
    and "entered (final (home Src h w s)) = entered s @ [UpdateKnowledgeBase]"
    and "\<not> raised (home Src h w s)"
proof -
  let ?d = "s\<lparr>
     messages := Some (history_at_dispatch w s),
     shown := shown s @
        map (\<lambda>m. ChatMessage (role m) None (content m)) (history_at_dispatch w s),
     calls := calls s @ [ReadKeyValue (config_file Src) ''AOSS_host_name'',
        ReadKeyValue (config_file Src) ''AOSS_index_name''],
     entered := entered s @ [UpdateKnowledgeBase]\<rparr>"
  have "uploads_writable h w ?d"
    using assms(4) by (simp only: uploads_writable_dispatch)
  moreover have "messages ?d = Some (history_at_dispatch w s)"
    by simp
  ultimately obtain s' where "update_src h w ?d = Done s'"
    and "messages s' = Some (history_at_dispatch w s @ [\<lparr>role = ''assistant'',
          content = ''Total '' @ fst (bedrock_kb_injection h file_path) @
           ''  to Amazon Bedrock Knowledge Base: '' @
           snd (snd (bedrock_kb_injection h file_path)) @
           ''  with status: '' @ fst (snd (bedrock_kb_injection h file_path)) @ ''.''\<rparr>])"
    and "calls s' = calls ?d @ [EmptyDirectory file_path, KbInjection file_path]"
    and "entered s' = entered ?d"
    using update_src_written [OF assms(3), of h ?d "history_at_dispatch w s"] by blast
  then show "messages (final (home Src h w s)) = Some (history_at_dispatch w s @
        [\<lparr>role = ''assistant'',
          content = ''Total '' @ fst (bedrock_kb_injection h file_path) @
           ''  to Amazon Bedrock Knowledge Base: '' @
           snd (snd (bedrock_kb_injection h file_path)) @
           ''  with status: '' @ fst (snd (bedrock_kb_injection h file_path)) @ ''.''\<rparr>])"
    and "calls (final (home Src h w s)) =
      calls s @ [ReadKeyValue (config_file Src) ''AOSS_host_name'',
        ReadKeyValue (config_file Src) ''AOSS_index_name'',
        EmptyDirectory file_path, KbInjection file_path]"
    and "entered (final (home Src h w s)) = entered s @ [UpdateKnowledgeBase]"
    and "\<not> raised (home Src h w s)"
    unfolding home_update_src_dispatch [OF assms(1,2)] by simp_all
qed

lemma home_update_src_failed:
  assumes "\<not> button_raises w s" "rag_flags (rag_on w) = (True, b)" "upload_docs w \<noteq> []"
    and "\<not> uploads_writable h w s"
  shows "messages (final (home Src h w s)) = Some (history_at_dispatch w s)"
    and "calls (final (home Src h w s)) =
      calls s @ [ReadKeyValue (config_file Src) ''AOSS_host_name'',
        ReadKeyValue (config_file Src) ''AOSS_index_name'', EmptyDirectory file_path]"
    and "entered (final (home Src h w s)) = entered s @ [UpdateKnowledgeBase]"
    and "raised (home Src h w s)"
proof -
  let ?d = "s\<lparr>
     messages := Some (history_at_dispatch w s),
     shown := shown s @
        map (\<lambda>m. ChatMessage (role m) None (content m)) (history_at_dispatch w s),
     calls := calls s @ [ReadKeyValue (config_file Src) ''AOSS_host_name'',
        ReadKeyValue (config_file Src) ''AOSS_index_name''],
     entered := entered s @ [UpdateKnowledgeBase]\<rparr>"
  have "\<not> uploads_writable h w ?d"
    using assms(4) unfolding uploads_writable_dispatch .
  then obtain s' where "update_src h w ?d = Raised OSError s'"
    and "messages s' = messages ?d" and "calls s' = calls ?d @ [EmptyDirectory file_path]"
    and "entered s' = entered ?d"
    using update_src_failed [OF assms(3), of h ?d] by blast
  then show "messages (final (home Src h w s)) = Some (history_at_dispatch w s)"
    and "calls (final (home Src h w s)) =
      calls s @ [ReadKeyValue (config_file Src) ''AOSS_host_name'',
        ReadKeyValue (config_file Src) ''AOSS_index_name'', EmptyDirectory file_path]"
    and "entered (final (home Src h w s)) = entered s @ [UpdateKnowledgeBase]"
    and "raised (home Src h w s)"
    unfolding home_update_src_dispatch [OF assms(1,2)] by simp_all
qed

lemma rag_flags_cases:
  obtains "rag_flags slider = (True, False)" | "rag_flags slider = (False, True)"
  | "rag_flags slider = (False, False)"
  by (cases "sublist ''Update'' slider"; cases "sublist ''Retrieval'' slider")
    (simp_all add: rag_flags_def)

lemma rag_flags_slider:
  "rag_flags ''None'' = (False, False)"
  "rag_flags ''Update'' = (True, False)"
  "rag_flags ''Retrieval'' = (False, True)"
  by (simp_all add: rag_flags_def sublist_Cons_right)

text \<open>Every run that gets past the sidebar: the branch it enters and what it appends.\<close>

lemma run_summary:
  assumes nr: "\<not> button_raises w s"
  shows "entered (final (home v h w s)) = entered s @
           [if fst (rag_flags (rag_on w)) then UpdateKnowledgeBase
            else if snd (rag_flags (rag_on w)) then Retrieval
            else Generation]"
    and "\<exists>added called.
           messages (final (home v h w s)) = Some (history_at_dispatch w s @ added) \<and>
           filter is_remote (calls (final (home v h w s))) =
             filter is_remote (calls s) @ called \<and>
           delegated v h w added called"
proof -
  have "entered (final (home v h w s)) = entered s @
           [if fst (rag_flags (rag_on w)) then UpdateKnowledgeBase
            else if snd (rag_flags (rag_on w)) then Retrieval
            else Generation] \<and>
        (\<exists>added called.
           messages (final (home v h w s)) = Some (history_at_dispatch w s @ added) \<and>
           filter is_remote (calls (final (home v h w s))) =
             filter is_remote (calls s) @ called \<and>
           delegated v h w added called)"
  proof (cases "rag_on w" rule: rag_flags_cases)
    case 1
    show ?thesis
    proof (cases v)
      case App
      have "delegated App h w
          [\<lparr>role = ''assistant'', content = fst (bedrock_kb_injection_noarg h)\<rparr>]
          [KbInjectionNoArg]"
        by (simp add: delegated_def)
      then show ?thesis
        unfolding App using home_update_app [OF nr 1, of h] 1
        by (intro conjI exI [of _ "[\<lparr>role = ''assistant'',
              content = fst (bedrock_kb_injection_noarg h)\<rparr>]"]
            exI [of _ "[KbInjectionNoArg]"]) simp_all
    next
      case Src
      show ?thesis
      proof (cases "upload_docs w = []")
        case True
        have "delegated Src h w [] []"
          by (simp add: delegated_def)
        then show ?thesis
          unfolding Src using home_update_src_empty [OF nr 1 True, of h] 1
          by (intro conjI exI [of _ "[]"]) simp_all
      next
        case ne: False
        show ?thesis
        proof (cases "uploads_writable h w s")
          case True
          have "delegated Src h w
            [\<lparr>role = ''assistant'',
              content = ''Total '' @ fst (bedrock_kb_injection h file_path) @
                ''  to Amazon Bedrock Knowledge Base: '' @
                snd (snd (bedrock_kb_injection h file_path)) @
                ''  with status: '' @ fst (snd (bedrock_kb_injection h file_path)) @ ''.''\<rparr>]
            [KbInjection file_path]"
            by (simp add: delegated_def)
          then show ?thesis
            unfolding Src using home_update_src(1,2,3) [OF nr 1 ne True] 1
            by (intro conjI exI [of _ "[\<lparr>role = ''assistant'',
              content = ''Total '' @ fst (bedrock_kb_injection h file_path) @
                ''  to Amazon Bedrock Knowledge Base: '' @
                snd (snd (bedrock_kb_injection h file_path)) @
                ''  with status: '' @ fst (snd (bedrock_kb_injection h file_path)) @ ''.''\<rparr>]"]
              exI [of _ "[KbInjection file_path]"]) simp_all
        next
          case False
          have "delegated Src h w [] []"
            by (simp add: delegated_def)
          then show ?thesis
            unfolding Src using home_update_src_failed(1,2,3) [OF nr 1 ne False] 1
            by (intro conjI exI [of _ "[]"]) simp_all
        qed
      qed
    qed
  next
    case 2
    show ?thesis
    proof (cases "\<exists>p. submitted w p")
      case True
      then obtain p where p: "submitted w p" ..
      show ?thesis
      proof (cases v)
        case App
        have "delegated App h w
          [\<lparr>role = ''user'', content = p\<rparr>,
           \<lparr>role = ''assistant'',
            content = bedrock_kb_retrieval h p (option w) @ signature @ option w\<rparr>]
          [KbRetrieval p (option w)]"
          by (simp add: delegated_def)
        then show ?thesis
          unfolding App using home_retrieval_app [OF nr 2 p, of h] 2
          by (intro conjI exI [of _ "[\<lparr>role = ''user'', content = p\<rparr>,
           \<lparr>role = ''assistant'',
            content = bedrock_kb_retrieval h p (option w) @ signature @ option w\<rparr>]"]
            exI [of _ "[KbRetrieval p (option w)]"]) simp_all
      next
        case Src
        have "delegated Src h w
          [\<lparr>role = ''user'', content = p\<rparr>,
           \<lparr>role = ''assistant'',
            content = bedrock_kb_retrieval_advanced h p (option w) (max_token w)
              (temperature w) (top_p w) (top_k w) (stop_sequences w) @
              signature @ option w\<rparr>]
          [KbRetrievalAdvanced p (option w) (max_token w) (temperature w) (top_p w)
            (top_k w) (stop_sequences w)]"
          by (simp add: delegated_def)
        then show ?thesis
          unfolding Src using home_retrieval_src [OF nr 2 p, of h] 2
          by (intro conjI exI [of _ "[\<lparr>role = ''user'', content = p\<rparr>,
           \<lparr>role = ''assistant'',
            content = bedrock_kb_retrieval_advanced h p (option w) (max_token w)
              (temperature w) (top_p w) (top_k w) (stop_sequences w) @
              signature @ option w\<rparr>]"]
            exI [of _ "[KbRetrievalAdvanced p (option w) (max_token w) (temperature w)
              (top_p w) (top_k w) (stop_sequences w)]"]) simp_all
      qed
    next
      case False
      have "delegated v h w [] []"
        by (simp add: delegated_def)
      then show ?thesis
        using home_idle [OF nr 2, of v h] False 2
        by (intro conjI exI [of _ "[]"]) simp_all
    qed
  next
    case 3
    show ?thesis
    proof (cases "\<exists>p. submitted w p")
      case True
      then obtain p where p: "submitted w p" ..
      have "delegated v h w
          [\<lparr>role = ''user'', content = p\<rparr>,
           \<lparr>role = ''assistant'',
            content = bedrock_textGen h (option w) p (max_token w)
              (temperature w) (top_p w) (top_k w) (stop_sequences w) @
              signature @ option w\<rparr>]
          [TextGen (option w) p (max_token w) (temperature w) (top_p w) (top_k w)
            (stop_sequences w)]"
        by (simp add: delegated_def)
      then show ?thesis
        using home_generation [OF nr 3 p, of v h] 3
        by (intro conjI exI [of _ "[\<lparr>role = ''user'', content = p\<rparr>,
           \<lparr>role = ''assistant'',
            content = bedrock_textGen h (option w) p (max_token w)
              (temperature w) (top_p w) (top_k w) (stop_sequences w) @
              signature @ option w\<rparr>]"]
          exI [of _ "[TextGen (option w) p (max_token w) (temperature w) (top_p w)
            (top_k w) (stop_sequences w)]"]) simp_all
    next
      case False
      have "delegated v h w [] []"
        by (simp add: delegated_def)
      then show ?thesis
        using home_idle [OF nr 3, of v h] False 3
        by (intro conjI exI [of _ "[]"]) simp_all
    qed
  qed
  then show "entered (final (home v h w s)) = entered s @
           [if fst (rag_flags (rag_on w)) then UpdateKnowledgeBase
            else if snd (rag_flags (rag_on w)) then Retrieval
            else Generation]"
    and "\<exists>added called.
           messages (final (home v h w s)) = Some (history_at_dispatch w s @ added) \<and>
           filter is_remote (calls (final (home v h w s))) =
             filter is_remote (calls s) @ called \<and>
           delegated v h w added called"
    by blast+
qed

lemma run_messages:
  "\<not> button_raises w s \<Longrightarrow>
   \<exists>added. messages (final (home v h w s)) = Some (history_at_dispatch w s @ added)"
  using run_summary(2) [of w s v h] by blast

subsection \<open>The three branches\<close>



subsection \<open>The button\<close>

text \<open>
  C6: when the button is pressed on a session that holds a chat history \<open>ms\<close>, whatever
  \<open>ms\<close> is, the button leaves exactly the one-element list with the greeting in
  \<open>messages\<close>: nothing of \<open>ms\<close> survives. The branch that runs afterwards in the same
  run starts from that list, and a run that submits no prompt outside update mode ends
  with it.
\<close>

theorem clear_chat_resets_history:
  assumes "clear_chat_history w" and "messages s = Some ms"
  shows "clear_chat w s = Done (s\<lparr>messages := Some [greeting]\<rparr>) \<and>
         history_at_dispatch w s = [greeting] \<and>
         (\<exists>added. messages (final (home v h w s)) = Some ([greeting] @ added)) \<and>
         (chat_input w = None \<and> \<not> fst (rag_flags (rag_on w)) \<longrightarrow>
            messages (final (home v h w s)) = Some [greeting])"
proof -
  have nr: "\<not> button_raises w s"
    using assms by (simp add: button_raises_def)
  have hist: "history_at_dispatch w s = [greeting]"
    using assms by (simp add: history_at_dispatch_eq)
  have c: "clear_chat w s = Done (s\<lparr>messages := Some [greeting]\<rparr>)"
    using assms by (simp add: clear_chat_def)
  have run: "\<exists>added. messages (final (home v h w s)) = Some ([greeting] @ added)"
    using run_messages [OF nr, of v h] unfolding hist .
  have idle: "messages (final (home v h w s)) = Some [greeting]"
    if ci: "chat_input w = None" and nu: "\<not> fst (rag_flags (rag_on w))"
  proof -
    obtain b where "rag_flags (rag_on w) = (False, b)"
      using nu by (cases "rag_flags (rag_on w)") auto
    moreover have "\<forall>p. \<not> submitted w p"
      using ci by (simp add: submitted_def)
    ultimately show ?thesis
      using home_idle [OF nr] hist by simp
  qed
  from c hist run idle show ?thesis by blast
qed

text \<open>The button pressed on a session that holds two messages.\<close>

theorem clear_chat_resets_history_witness:
  "clear_chat_history ((sample_widgets ''None'' None)\<lparr>clear_chat_history := True\<rparr>) \<and>
   messages old_session = Some [\<lparr>role = ''user'', content = ''hello''\<rparr>,
                        \<lparr>role = ''assistant'', content = ''hi''\<rparr>] \<and>
   messages (final (home App sample_helpers
     ((sample_widgets ''None'' None)\<lparr>clear_chat_history := True\<rparr>) old_session)) = Some [greeting]"
proof -
  let ?w = "(sample_widgets ''None'' None)\<lparr>clear_chat_history := True\<rparr>"
  have a: "clear_chat_history ?w"
    by (simp add: sample_widgets_def)
  have b: "messages old_session = Some [\<lparr>role = ''user'', content = ''hello''\<rparr>,
                        \<lparr>role = ''assistant'', content = ''hi''\<rparr>]"
    by (simp add: old_session_def)
  have c: "chat_input ?w = None \<and> \<not> fst (rag_flags (rag_on ?w))"
    by (simp add: sample_widgets_def rag_flags_slider)
  show ?thesis
    using clear_chat_resets_history [OF a b, where v = App and h = sample_helpers] a b c by simp
qed

subsection \<open>The chat history\<close>

lemma run_with_prompt:
  assumes "\<not> button_raises w s" and "submitted w p" and "\<not> fst (rag_flags (rag_on w))"
  shows "messages (final (home v h w s)) =
           Some (history_at_dispatch w s @
             [\<lparr>role = ''user'', content = p\<rparr>,
              \<lparr>role = ''assistant'', content = helper_reply v h w p @ signature @ option w\<rparr>])"
    and "shown (final (home v h w s)) = shown s @
           map (\<lambda>m. ChatMessage (role m) None (content m)) (history_at_dispatch w s) @
           [ChatMessage ''user'' None p,
            ChatMessage ''ai'' (Some avatar_llama)
              (helper_reply v h w p @ signature @ option w)]"
proof -
  consider "rag_flags (rag_on w) = (False, True)" | "rag_flags (rag_on w) = (False, False)"
    using assms(3) by (cases "rag_on w" rule: rag_flags_cases) auto
  then have "messages (final (home v h w s)) =
           Some (history_at_dispatch w s @
             [\<lparr>role = ''user'', content = p\<rparr>,
              \<lparr>role = ''assistant'', content = helper_reply v h w p @ signature @ option w\<rparr>]) \<and>
     shown (final (home v h w s)) = shown s @
           map (\<lambda>m. ChatMessage (role m) None (content m)) (history_at_dispatch w s) @
           [ChatMessage ''user'' None p,
            ChatMessage ''ai'' (Some avatar_llama)
              (helper_reply v h w p @ signature @ option w)]"
  proof cases
    case 1
    then show ?thesis
      using home_retrieval_app [OF assms(1) 1 assms(2), of h]
        home_retrieval_src [OF assms(1) 1 assms(2), of h]
      by (cases v) (simp_all add: helper_reply_def)
  next
    case 2
    then show ?thesis
      using home_generation [OF assms(1) 2 assms(2), of v h]
      by (simp add: helper_reply_def)
  qed
  then show "messages (final (home v h w s)) =
           Some (history_at_dispatch w s @
             [\<lparr>role = ''user'', content = p\<rparr>,
              \<lparr>role = ''assistant'', content = helper_reply v h w p @ signature @ option w\<rparr>])"
    and "shown (final (home v h w s)) = shown s @
           map (\<lambda>m. ChatMessage (role m) None (content m)) (history_at_dispatch w s) @
           [ChatMessage ''user'' None p,
            ChatMessage ''ai'' (Some avatar_llama)
              (helper_reply v h w p @ signature @ option w)]"
    by simp_all
qed

lemma handlers_append:
  assumes "messages s = Some ms"
  shows "\<exists>added. messages (final (update_app h w s)) = Some (ms @ added)"
    and "\<exists>added. messages (final (update_src h w s)) = Some (ms @ added)"
    and "\<exists>added. messages (final (retrieval_app h w s)) = Some (ms @ added)"
    and "\<exists>added. messages (final (retrieval_src h w s)) = Some (ms @ added)"
    and "\<exists>added. messages (final (generation h w s)) = Some (ms @ added)"
proof -
  show "\<exists>added. messages (final (update_src h w s)) = Some (ms @ added)"
  proof (cases "upload_docs w = []")
    case True
    then show ?thesis
      using assms by (simp add: update_src_def)
  next
    case ne: False
    show ?thesis
    proof (cases "uploads_writable h w s")
      case True
      from update_src_written [OF ne True assms] show ?thesis
        by (elim exE conjE) simp
    next
      case False
      from update_src_failed [OF ne False] show ?thesis
        using assms by (elim exE conjE) simp
    qed
  qed
  show "\<exists>added. messages (final (update_app h w s)) = Some (ms @ added)"
    and "\<exists>added. messages (final (retrieval_app h w s)) = Some (ms @ added)"
    and "\<exists>added. messages (final (retrieval_src h w s)) = Some (ms @ added)"
    and "\<exists>added. messages (final (generation h w s)) = Some (ms @ added)"
    using assms
    by (auto simp: script_defs split: option.splits prod.splits)
qed

lemma reachable_nonempty:
  "reachable v s \<Longrightarrow> messages s \<noteq> Some []"
proof (induction rule: reachable.induct)
  case (fresh s v)
  then show ?case by simp
next
  case (rerun v s h w)
  show ?case
  proof (cases "button_raises w s")
    case True
    then show ?thesis
      using rerun.IH by (simp add: home_raises read_config_def log_call_def Let_def)
  next
    case False
    from run_messages [OF False, of v h]
    obtain added where "messages (final (home v h w s)) = Some (history_at_dispatch w s @ added)"
      by blast
    moreover have "history_at_dispatch w s \<noteq> []"
      using rerun.IH by (auto simp: history_at_dispatch_eq split: option.splits)
    ultimately show ?thesis by simp
  qed
qed

text \<open>
  C2: session state holds the chat history.
  \<^item> In retrieval and generation mode (that is, whenever \<open>rag_update\<close> is not set), a run
    that gets past the sidebar with a non-empty prompt \<open>p\<close> ends with the history it
    started its branch with, followed by the message of role \<open>user\<close> with content \<open>p\<close>,
    immediately followed by the message of role \<open>assistant\<close> that holds the reply.
  \<^item> None of the five branch bodies removes or rewrites a message: each leaves the list
    it found, extended at the end. The same holds for the whole run after the sidebar.
  \<^item> When the key \<open>messages\<close> is absent, the initialisation binds it to the one-element
    list with the greeting.
  \<^item> So the list is never empty: no session state that a browser session can reach
    holds an empty list, and every run that gets past the sidebar ends with a
    non-empty one.
\<close>

theorem chat_history_append_only:
  "(\<not> button_raises w s \<and> submitted w p \<and> \<not> fst (rag_flags (rag_on w)) \<longrightarrow>
      messages (final (home v h w s)) =
        Some (history_at_dispatch w s @
          [\<lparr>role = ''user'', content = p\<rparr>,
           \<lparr>role = ''assistant'',
            content = helper_reply v h w p @ signature @ option w\<rparr>])) \<and>
   (messages s = Some ms \<longrightarrow>
      (\<exists>added. messages (final (update_app h w s)) = Some (ms @ added)) \<and>
      (\<exists>added. messages (final (update_src h w s)) = Some (ms @ added)) \<and>
      (\<exists>added. messages (final (retrieval_app h w s)) = Some (ms @ added)) \<and>
      (\<exists>added. messages (final (retrieval_src h w s)) = Some (ms @ added)) \<and>
      (\<exists>added. messages (final (generation h w s)) = Some (ms @ added))) \<and>
   (\<not> button_raises w s \<longrightarrow>
      (\<exists>added. messages (final (home v h w s)) = Some (history_at_dispatch w s @ added))) \<and>
   (messages s = None \<longrightarrow> messages (init_messages s) = Some [greeting]) \<and>
   (reachable v s \<longrightarrow>
      messages s \<noteq> Some [] \<and>
      (\<not> button_raises w s \<longrightarrow>
         (\<exists>ms'. messages (final (home v h w s)) = Some ms' \<and> ms' \<noteq> [])))"
proof -
  have d: "\<exists>ms'. messages (final (home v h w s)) = Some ms' \<and> ms' \<noteq> []"
    if r: "reachable v s" and nr: "\<not> button_raises w s"
  proof -
    from run_messages [OF nr, of v h]
    obtain added where "messages (final (home v h w s)) = Some (history_at_dispatch w s @ added)"
      by blast
    moreover have "history_at_dispatch w s \<noteq> []"
      using reachable_nonempty [OF r]
      by (auto simp: history_at_dispatch_eq split: option.splits)
    ultimately show ?thesis by simp
  qed
  have c: "messages s = None \<longrightarrow> messages (init_messages s) = Some [greeting]"
    by (simp add: init_messages_def)
  show ?thesis
    using run_with_prompt(1) [of w s p v h] handlers_append [of s ms h w]
      run_messages [of w s v h] reachable_nonempty [of v s] c d
    by blast
qed

text \<open>
  A prompt in retrieval mode on a fresh session, and the generation branch on a session
  with two old messages.
\<close>

theorem chat_history_append_only_witness:
  "\<not> button_raises (sample_widgets ''Retrieval'' (Some ''hi'')) fresh_session \<and>
   submitted (sample_widgets ''Retrieval'' (Some ''hi'')) ''hi'' \<and>
   \<not> fst (rag_flags (rag_on (sample_widgets ''Retrieval'' (Some ''hi'')))) \<and>
   messages fresh_session = None \<and>
   reachable Src fresh_session \<and>
   messages (final (home Src sample_helpers (sample_widgets ''Retrieval'' (Some ''hi''))
      fresh_session)) =
     Some [greeting, \<lparr>role = ''user'', content = ''hi''\<rparr>,
       \<lparr>role = ''assistant'',
        content = ''retrieved'' @ signature @ ''anthropic.claude-3-haiku-20240307-v1:0''\<rparr>] \<and>
   messages old_session = Some [\<lparr>role = ''user'', content = ''hello''\<rparr>,
                        \<lparr>role = ''assistant'', content = ''hi''\<rparr>] \<and>
   (\<exists>added. messages (final (generation sample_helpers
       (sample_widgets ''None'' (Some ''hi'')) old_session)) =
     Some ([\<lparr>role = ''user'', content = ''hello''\<rparr>,
                        \<lparr>role = ''assistant'', content = ''hi''\<rparr>] @ added))"
proof -
  let ?w = "sample_widgets ''Retrieval'' (Some ''hi'')"
  have a: "\<not> button_raises ?w fresh_session"
    by (simp add: button_raises_def sample_widgets_def)
  have b: "submitted ?w ''hi''"
    by (simp add: submitted_def sample_widgets_def)
  have f: "rag_flags (rag_on ?w) = (False, True)"
    by (simp add: sample_widgets_def rag_flags_slider)
  have n: "messages fresh_session = None"
    by (simp add: fresh_session_def)
  have r: "reachable Src fresh_session"
    by (rule reachable.fresh) (rule n)
  have hd: "history_at_dispatch ?w fresh_session = [greeting]"
    by (simp add: history_at_dispatch_eq n)
  have rp: "helper_reply Src sample_helpers ?w ''hi'' = ''retrieved''"
    by (simp add: helper_reply_def f sample_helpers_def)
  have op: "option ?w = ''anthropic.claude-3-haiku-20240307-v1:0''"
    by (simp add: sample_widgets_def)
  have o: "messages old_session = Some [\<lparr>role = ''user'', content = ''hello''\<rparr>,
                        \<lparr>role = ''assistant'', content = ''hi''\<rparr>]"
    by (simp add: old_session_def)
  show ?thesis
    using chat_history_append_only [where w = ?w and s = fresh_session and p = "''hi''"
        and v = Src and h = sample_helpers]
      chat_history_append_only [where w = "sample_widgets ''None'' (Some ''hi'')"
        and s = old_session and h = sample_helpers
        and ms = "[\<lparr>role = ''user'', content = ''hello''\<rparr>,
                        \<lparr>role = ''assistant'', content = ''hi''\<rparr>]"]
      a b f n r o
    by (simp add: hd rp op)
qed

subsection \<open>The reply\<close>

text \<open>
  C5: in retrieval and generation mode, for every non-empty prompt, the last message
  appended to session state has role \<open>assistant\<close> and its content is what the helper of
  the branch returned, followed by \<open>signature\<close> (two newlines, a space, the pen sign and
  \<open>Content created by using: \<close>), followed by the selected model id; the last text
  written to the page is the same string. The helper is \<open>bedrock_kb_retrieval\<close> (\<open>App\<close>) or
  \<open>bedrock_kb_retrieval_advanced\<close> (\<open>Src\<close>) in retrieval mode and \<open>bedrock_textGen\<close> in
  generation mode.
\<close>

theorem reply_carries_signature:
  assumes "\<not> button_raises w s" and "submitted w p" and "\<not> fst (rag_flags (rag_on w))"
  shows "(\<exists>earlier. messages (final (home v h w s)) =
            Some (earlier @ [\<lparr>role = ''assistant'',
               content = helper_reply v h w p @ signature @ option w\<rparr>])) \<and>
         (\<exists>before. shown (final (home v h w s)) =
            before @ [ChatMessage ''ai'' (Some avatar_llama)
               (helper_reply v h w p @ signature @ option w)]) \<and>
         helper_reply App h w p =
           (if snd (rag_flags (rag_on w)) then bedrock_kb_retrieval h p (option w)
            else bedrock_textGen h (option w) p (max_token w) (temperature w) (top_p w)
                   (top_k w) (stop_sequences w)) \<and>
         helper_reply Src h w p =
           (if snd (rag_flags (rag_on w))
            then bedrock_kb_retrieval_advanced h p (option w) (max_token w) (temperature w)
                   (top_p w) (top_k w) (stop_sequences w)
            else bedrock_textGen h (option w) p (max_token w) (temperature w) (top_p w)
                   (top_k w) (stop_sequences w))"
proof -
  have m: "\<exists>earlier. messages (final (home v h w s)) =
            Some (earlier @ [\<lparr>role = ''assistant'',
               content = helper_reply v h w p @ signature @ option w\<rparr>])"
    using run_with_prompt(1) [OF assms, of v h]
    by (intro exI [of _ "history_at_dispatch w s @ [\<lparr>role = ''user'', content = p\<rparr>]"]) simp
  have d: "\<exists>before. shown (final (home v h w s)) =
            before @ [ChatMessage ''ai'' (Some avatar_llama)
               (helper_reply v h w p @ signature @ option w)]"
    using run_with_prompt(2) [OF assms, of v h]
    by (intro exI [of _ "shown s @
           map (\<lambda>m. ChatMessage (role m) None (content m)) (history_at_dispatch w s) @
           [ChatMessage ''user'' None p]"]) simp
  from m d show ?thesis
    by (simp add: helper_reply_def)
qed

text \<open>A prompt in generation mode on a session with two old messages.\<close>

theorem reply_carries_signature_witness:
  "\<not> button_raises (sample_widgets ''None'' (Some ''hi'')) old_session \<and>
   submitted (sample_widgets ''None'' (Some ''hi'')) ''hi'' \<and>
   \<not> fst (rag_flags (rag_on (sample_widgets ''None'' (Some ''hi'')))) \<and>
   (\<exists>earlier. messages (final (home App sample_helpers
        (sample_widgets ''None'' (Some ''hi'')) old_session)) =
      Some (earlier @ [\<lparr>role = ''assistant'',
        content = ''generated'' @ signature @ ''anthropic.claude-3-haiku-20240307-v1:0''\<rparr>]))"
proof -
  let ?w = "sample_widgets ''None'' (Some ''hi'')"
  have a: "\<not> button_raises ?w old_session"
    by (simp add: button_raises_def sample_widgets_def)
  have b: "submitted ?w ''hi''"
    by (simp add: submitted_def sample_widgets_def)
  have f: "rag_flags (rag_on ?w) = (False, False)"
    by (simp add: sample_widgets_def rag_flags_slider)
  have c: "\<not> fst (rag_flags (rag_on ?w))"
    by (simp add: f)
  have rp: "helper_reply App sample_helpers ?w ''hi'' = ''generated''"
    by (simp add: helper_reply_def f sample_helpers_def)
  have op: "option ?w = ''anthropic.claude-3-haiku-20240307-v1:0''"
    by (simp add: sample_widgets_def)
  have "\<exists>earlier. messages (final (home App sample_helpers ?w old_session)) =
      Some (earlier @ [\<lparr>role = ''assistant'',
        content = helper_reply App sample_helpers ?w ''hi'' @ signature @ option ?w\<rparr>])"
    by (rule conjunct1 [OF reply_carries_signature [OF a b c]])
  then have m: "\<exists>earlier. messages (final (home App sample_helpers ?w old_session)) =
      Some (earlier @ [\<lparr>role = ''assistant'',
        content = ''generated'' @ signature @ ''anthropic.claude-3-haiku-20240307-v1:0''\<rparr>])"
    unfolding rp op .
  show ?thesis
    by (intro conjI a b c m)
qed

subsection \<open>The arguments of the generation helper\<close>

text \<open>
  C7: in generation mode a run with a non-empty prompt makes, after the two reads of
  the configuration file, exactly one helper call: \<open>bedrock_textGen\<close> with the selected
  model id, the prompt, \<open>max_token\<close>, \<open>temperature\<close>, \<open>top_p\<close>, \<open>top_k\<close> and
  \<open>stop_sequences\<close>, in this order and unchanged. The bounds that the number inputs
  enforce therefore hold of the arguments: temperature between 0 and 1, \<open>max_token\<close> at
  least 0, \<open>top_p\<close> at least 0.1 and \<open>top_k\<close> at least 1.
\<close>

theorem textGen_gets_sidebar_values:
  assumes "\<not> button_raises w s" and "submitted w p"
    and "rag_flags (rag_on w) = (False, False)" and "sidebar_inputs_ok w"
  shows "calls (final (home v h w s)) =
           calls s @ [ReadKeyValue (config_file v) ''AOSS_host_name'',
             ReadKeyValue (config_file v) ''AOSS_index_name'',
             TextGen (option w) p (max_token w) (temperature w) (top_p w) (top_k w)
               (stop_sequences w)] \<and>
         0 \<le> temperature w \<and> temperature w \<le> 1 \<and> 0 \<le> max_token w \<and>
         1 / 10 \<le> top_p w \<and> 1 \<le> top_k w"
  using home_generation [OF assms(1) assms(3) assms(2), of v h] assms(4)
  by (simp add: sidebar_inputs_ok_def number_input_ok_def)

text \<open>The sidebar defaults with the prompt \<open>hi\<close>.\<close>

theorem textGen_gets_sidebar_values_witness:
  "\<not> button_raises (sample_widgets ''None'' (Some ''hi'')) fresh_session \<and>
   submitted (sample_widgets ''None'' (Some ''hi'')) ''hi'' \<and>
   rag_flags (rag_on (sample_widgets ''None'' (Some ''hi''))) = (False, False) \<and>
   sidebar_inputs_ok (sample_widgets ''None'' (Some ''hi'')) \<and>
   calls (final (home App sample_helpers (sample_widgets ''None'' (Some ''hi'')) fresh_session)) =
     [ReadKeyValue ''./.aoss_config.txt'' ''AOSS_host_name'',
      ReadKeyValue ''./.aoss_config.txt'' ''AOSS_index_name'',
      TextGen ''anthropic.claude-3-haiku-20240307-v1:0'' ''hi'' 1024 (1 / 10) (85 / 100) 40
        ([CHR 0x0A, CHR 0x0A] @ ''Human'')]"
proof -
  let ?w = "sample_widgets ''None'' (Some ''hi'')"
  have a: "\<not> button_raises ?w fresh_session"
    by (simp add: button_raises_def sample_widgets_def)
  have b: "submitted ?w ''hi''"
    by (simp add: submitted_def sample_widgets_def)
  have f: "rag_flags (rag_on ?w) = (False, False)"
    by (simp add: sample_widgets_def rag_flags_slider)
  have k: "sidebar_inputs_ok ?w"
    by (simp add: sidebar_inputs_ok_def number_input_ok_def sample_widgets_def)
  have w: "option ?w = ''anthropic.claude-3-haiku-20240307-v1:0''" "max_token ?w = 1024"
    "temperature ?w = 1 / 10" "top_p ?w = 85 / 100" "top_k ?w = 40"
    "stop_sequences ?w = [CHR 0x0A, CHR 0x0A] @ ''Human''"
    by (simp_all add: sample_widgets_def)
  have e: "calls fresh_session = []"
    by (simp add: fresh_session_def)
  have "calls (final (home App sample_helpers ?w fresh_session)) =
           calls fresh_session @ [ReadKeyValue (config_file App) ''AOSS_host_name'',
             ReadKeyValue (config_file App) ''AOSS_index_name'',
             TextGen (option ?w) ''hi'' (max_token ?w) (temperature ?w) (top_p ?w) (top_k ?w)
               (stop_sequences ?w)]"
    by (rule conjunct1 [OF textGen_gets_sidebar_values [OF a b f k]])
  then have m: "calls (final (home App sample_helpers ?w fresh_session)) =
     [ReadKeyValue ''./.aoss_config.txt'' ''AOSS_host_name'',
      ReadKeyValue ''./.aoss_config.txt'' ''AOSS_index_name'',
      TextGen ''anthropic.claude-3-haiku-20240307-v1:0'' ''hi'' 1024 (1 / 10) (85 / 100) 40
        ([CHR 0x0A, CHR 0x0A] @ ''Human'')]"
    by (simp only: w e config_file.simps append_Nil)
  show ?thesis
    by (intro conjI a b f k m)
qed

subsection \<open>Helper calls\<close>

text \<open>
  The calls of one run: the two reads of the configuration file, then at most the calls
  of one branch.
\<close>

lemma run_calls_app:
  "\<exists>cs. calls (final (home App h w s)) =
      calls s @ [ReadKeyValue (config_file App) ''AOSS_host_name'',
        ReadKeyValue (config_file App) ''AOSS_index_name''] @ cs \<and>
     (cs = [] \<or> cs = [KbInjectionNoArg] \<or> (\<exists>p. cs = [KbRetrieval p (option w)]) \<or>
      (\<exists>p. cs = [TextGen (option w) p (max_token w) (temperature w) (top_p w) (top_k w)
          (stop_sequences w)]))"
proof (cases "button_raises w s")
  case True
  then show ?thesis
    using home_raises [of w s App h]
    by (simp add: read_config_def log_call_def Let_def)
next
  case nr: False
  show ?thesis
  proof (cases "rag_on w" rule: rag_flags_cases)
    case 1
    then show ?thesis
      using home_update_app [OF nr 1, of h] by simp
  next
    case 2
    show ?thesis
    proof (cases "\<exists>p. submitted w p")
      case True
      then obtain p where "submitted w p" ..
      then show ?thesis
        using home_retrieval_app [OF nr 2, of p h] by auto
    next
      case False
      then show ?thesis
        using home_idle [OF nr 2, of App h] by simp
    qed
  next
    case 3
    show ?thesis
    proof (cases "\<exists>p. submitted w p")
      case True
      then obtain p where "submitted w p" ..
      then show ?thesis
        using home_generation [OF nr 3, of p App h] by auto
    next
      case False
      then show ?thesis
        using home_idle [OF nr 3, of App h] by simp
    qed
  qed
qed

lemma run_calls_src:
  "\<exists>cs. calls (final (home Src h w s)) =
      calls s @ [ReadKeyValue (config_file Src) ''AOSS_host_name'',
        ReadKeyValue (config_file Src) ''AOSS_index_name''] @ cs \<and>
     (cs = [] \<or> cs = [EmptyDirectory file_path] \<or>
      cs = [EmptyDirectory file_path, KbInjection file_path] \<or>
      (\<exists>p. cs = [KbRetrievalAdvanced p (option w) (max_token w) (temperature w) (top_p w)
          (top_k w) (stop_sequences w)]) \<or>
      (\<exists>p. cs = [TextGen (option w) p (max_token w) (temperature w) (top_p w) (top_k w)
          (stop_sequences w)]))"
proof (cases "button_raises w s")
  case True
  then show ?thesis
    using home_raises [of w s Src h]
    by (simp add: read_config_def log_call_def Let_def)
next
  case nr: False
  show ?thesis
  proof (cases "rag_on w" rule: rag_flags_cases)
    case 1
    show ?thesis
    proof (cases "upload_docs w = []")
      case True
      then show ?thesis
        using home_update_src_empty [OF nr 1 True, of h] by simp
    next
      case ne: False
      then show ?thesis
        using home_update_src(2) [OF nr 1 ne, of h] home_update_src_failed(2) [OF nr 1 ne, of h]
        by (cases "uploads_writable h w s") simp_all
    qed
  next
    case 2
    show ?thesis
    proof (cases "\<exists>p. submitted w p")
      case True
      then obtain p where "submitted w p" ..
      then show ?thesis
        using home_retrieval_src [OF nr 2, of p h] by auto
    next
      case False
      then show ?thesis
        using home_idle [OF nr 2, of Src h] by simp
    qed
  next
    case 3
    show ?thesis
    proof (cases "\<exists>p. submitted w p")
      case True
      then obtain p where "submitted w p" ..
      then show ?thesis
        using home_generation [OF nr 3, of p Src h] by auto
    next
      case False
      then show ?thesis
        using home_idle [OF nr 3, of Src h] by simp
    qed
  qed
qed

text \<open>
  C8: there is no retry. Whatever the helpers return, a run of either variant adds at
  most one call of a remote helper to the log. A non-empty prompt in retrieval mode adds
  exactly one call, to \<open>bedrock_kb_retrieval\<close> (\<open>App\<close>) or \<open>bedrock_kb_retrieval_advanced\<close>
  (\<open>Src\<close>); in generation mode it adds exactly one call, to \<open>bedrock_textGen\<close>.
  (\<open>read_key_value\<close>, which reads the local configuration file, is called twice at the
  start of every run, once for each key.)
\<close>

theorem no_retry:
  "length (filter is_remote (calls (final (home v h w s)))) \<le>
     length (filter is_remote (calls s)) + 1 \<and>
   (\<not> button_raises w s \<and> submitted w p \<and> rag_flags (rag_on w) = (False, True) \<longrightarrow>
      filter is_remote (calls (final (home v h w s))) =
        filter is_remote (calls s) @
          [case v of
             App \<Rightarrow> KbRetrieval p (option w)
           | Src \<Rightarrow> KbRetrievalAdvanced p (option w) (max_token w) (temperature w) (top_p w)
                      (top_k w) (stop_sequences w)]) \<and>
   (\<not> button_raises w s \<and> submitted w p \<and> rag_flags (rag_on w) = (False, False) \<longrightarrow>
      filter is_remote (calls (final (home v h w s))) =
        filter is_remote (calls s) @
          [TextGen (option w) p (max_token w) (temperature w) (top_p w) (top_k w)
             (stop_sequences w)])"
proof -
  have once: "length (filter is_remote (calls (final (home v h w s)))) \<le>
     length (filter is_remote (calls s)) + 1"
  proof (cases v)
    case App
    from run_calls_app [of h w s] show ?thesis
      unfolding App by (elim exE conjE disjE) simp_all
  next
    case Src
    from run_calls_src [of h w s] show ?thesis
      unfolding Src by (elim exE conjE disjE) simp_all
  qed
  have retr: "filter is_remote (calls (final (home v h w s))) =
        filter is_remote (calls s) @
          [case v of
             App \<Rightarrow> KbRetrieval p (option w)
           | Src \<Rightarrow> KbRetrievalAdvanced p (option w) (max_token w) (temperature w) (top_p w)
                      (top_k w) (stop_sequences w)]"
    if "\<not> button_raises w s" and "submitted w p" and "rag_flags (rag_on w) = (False, True)"
    using home_retrieval_app [OF that(1) that(3) that(2), of h]
      home_retrieval_src [OF that(1) that(3) that(2), of h]
    by (cases v) simp_all
  have gen: "filter is_remote (calls (final (home v h w s))) =
        filter is_remote (calls s) @
          [TextGen (option w) p (max_token w) (temperature w) (top_p w) (top_k w)
             (stop_sequences w)]"
    if "\<not> button_raises w s" and "submitted w p" and "rag_flags (rag_on w) = (False, False)"
    using home_generation [OF that(1) that(3) that(2), of v h]
    by simp
  from once retr gen show ?thesis by blast
qed

text \<open>The prompt \<open>hi\<close> in retrieval mode (\<open>App\<close>) and in generation mode (\<open>Src\<close>).\<close>

theorem no_retry_witness:
  "\<not> button_raises (sample_widgets ''Retrieval'' (Some ''hi'')) fresh_session \<and>
   submitted (sample_widgets ''Retrieval'' (Some ''hi'')) ''hi'' \<and>
   rag_flags (rag_on (sample_widgets ''Retrieval'' (Some ''hi''))) = (False, True) \<and>
   filter is_remote (calls (final (home App sample_helpers
       (sample_widgets ''Retrieval'' (Some ''hi'')) fresh_session))) =
     [KbRetrieval ''hi'' ''anthropic.claude-3-haiku-20240307-v1:0''] \<and>
   \<not> button_raises (sample_widgets ''None'' (Some ''hi'')) fresh_session \<and>
   submitted (sample_widgets ''None'' (Some ''hi'')) ''hi'' \<and>
   rag_flags (rag_on (sample_widgets ''None'' (Some ''hi''))) = (False, False) \<and>
   length (filter is_remote (calls (final (home Src sample_helpers
       (sample_widgets ''None'' (Some ''hi'')) fresh_session)))) = 1"
proof -
  let ?w = "sample_widgets ''Retrieval'' (Some ''hi'')"
  let ?g = "sample_widgets ''None'' (Some ''hi'')"
  have a: "\<not> button_raises ?w fresh_session"
    by (simp add: button_raises_def sample_widgets_def)
  have b: "submitted ?w ''hi''"
    by (simp add: submitted_def sample_widgets_def)
  have f: "rag_flags (rag_on ?w) = (False, True)"
    by (simp add: sample_widgets_def rag_flags_slider)
  have a': "\<not> button_raises ?g fresh_session"
    by (simp add: button_raises_def sample_widgets_def)
  have b': "submitted ?g ''hi''"
    by (simp add: submitted_def sample_widgets_def)
  have f': "rag_flags (rag_on ?g) = (False, False)"
    by (simp add: sample_widgets_def rag_flags_slider)
  have e: "calls fresh_session = []"
    by (simp add: fresh_session_def)
  have op: "option ?w = ''anthropic.claude-3-haiku-20240307-v1:0''"
    by (simp add: sample_widgets_def)
  have m: "filter is_remote (calls (final (home App sample_helpers ?w fresh_session))) =
     [KbRetrieval ''hi'' ''anthropic.claude-3-haiku-20240307-v1:0'']"
    using no_retry [where v = App and h = sample_helpers and w = ?w and s = fresh_session
        and p = "''hi''"] a b f
    by (simp add: e op)
  have n: "length (filter is_remote (calls (final (home Src sample_helpers ?g fresh_session)))) = 1"
    using no_retry [where v = Src and h = sample_helpers and w = ?g and s = fresh_session
        and p = "''hi''"] a' b' f'
    by (simp add: e)
  show ?thesis
    by (intro conjI a b f m a' b' f' n)
qed

subsection \<open>Update mode without uploads\<close>

text \<open>
  C10: in \<open>Src\<close>, when update mode is active and the upload list is empty, the update
  branch does nothing: it returns the state it was given. Over the whole run no file
  changes, the only helper calls are the two reads of the configuration file (so neither
  \<open>empty_directory\<close> nor \<open>bedrock_kb_injection\<close> is called), and no message is appended to
  the history the branch started with. \<open>App\<close>, in contrast, calls \<open>bedrock_kb_injection\<close>
  in its update branch whatever the uploads are.
\<close>

theorem update_without_uploads_is_noop:
  assumes "fst (rag_flags (rag_on w))" and "upload_docs w = []"
  shows "update_src h w s = Done s \<and>
         files (final (home Src h w s)) = files s \<and>
         calls (final (home Src h w s)) =
           calls s @ [ReadKeyValue (config_file Src) ''AOSS_host_name'',
             ReadKeyValue (config_file Src) ''AOSS_index_name''] \<and>
         messages (final (home Src h w s)) =
           (if button_raises w s then messages s else Some (history_at_dispatch w s)) \<and>
         calls (final (update_app h w s)) = calls s @ [KbInjectionNoArg] \<and>
         (\<not> button_raises w s \<longrightarrow>
            calls (final (home App h w s)) =
              calls s @ [ReadKeyValue (config_file App) ''AOSS_host_name'',
                ReadKeyValue (config_file App) ''AOSS_index_name'', KbInjectionNoArg])"
proof -
  obtain b where fl: "rag_flags (rag_on w) = (True, b)"
    using assms(1) by (cases "rag_flags (rag_on w)") auto
  have u: "update_src h w s = Done s"
    using assms(2) by (simp add: update_src_def)
  have a: "calls (final (update_app h w s)) = calls s @ [KbInjectionNoArg]"
    by (auto simp: update_app_def messages_append_def log_call_def chat_message_write_def
        Let_def split: option.splits prod.splits)
  have src: "files (final (home Src h w s)) = files s \<and>
         calls (final (home Src h w s)) =
           calls s @ [ReadKeyValue (config_file Src) ''AOSS_host_name'',
             ReadKeyValue (config_file Src) ''AOSS_index_name''] \<and>
         messages (final (home Src h w s)) =
           (if button_raises w s then messages s else Some (history_at_dispatch w s))"
  proof (cases "button_raises w s")
    case True
    then show ?thesis
      using home_raises [of w s Src h]
      by (simp add: read_config_def log_call_def Let_def)
  next
    case False
    then show ?thesis
      using home_update_src_empty [OF False fl assms(2), of h] by simp
  qed
  have app: "calls (final (home App h w s)) =
              calls s @ [ReadKeyValue (config_file App) ''AOSS_host_name'',
                ReadKeyValue (config_file App) ''AOSS_index_name'', KbInjectionNoArg]"
    if nr: "\<not> button_raises w s"
    using home_update_app [OF nr fl, of h] by simp
  from u a src app show ?thesis by blast
qed

text \<open>Update mode with the sample inputs, which upload nothing.\<close>

theorem update_without_uploads_is_noop_witness:
  "fst (rag_flags (rag_on (sample_widgets ''Update'' None))) \<and>
   upload_docs (sample_widgets ''Update'' None) = [] \<and>
   update_src sample_helpers (sample_widgets ''Update'' None) old_session = Done old_session \<and>
   files (final (home Src sample_helpers (sample_widgets ''Update'' None) old_session)) =
     files old_session \<and>
   \<not> button_raises (sample_widgets ''Update'' None) old_session \<and>
   calls (final (home App sample_helpers (sample_widgets ''Update'' None) old_session)) =
     calls old_session @ [ReadKeyValue (config_file App) ''AOSS_host_name'',
       ReadKeyValue (config_file App) ''AOSS_index_name'', KbInjectionNoArg]"
proof -
  let ?w = "sample_widgets ''Update'' None"
  have a: "fst (rag_flags (rag_on ?w))"
    by (simp add: sample_widgets_def rag_flags_slider)
  have b: "upload_docs ?w = []"
    by (simp add: sample_widgets_def)
  have nr: "\<not> button_raises ?w old_session"
    by (simp add: button_raises_def sample_widgets_def)
  note t = update_without_uploads_is_noop [OF a b, of sample_helpers old_session]
  from t nr have app:
    "calls (final (home App sample_helpers ?w old_session)) =
     calls old_session @ [ReadKeyValue (config_file App) ''AOSS_host_name'',
       ReadKeyValue (config_file App) ''AOSS_index_name'', KbInjectionNoArg]"
    by blast
  show ?thesis
    by (intro conjI a b nr app conjunct1 [OF t] conjunct1 [OF conjunct2 [OF t]])
qed

subsection \<open>The two variants compared\<close>

text \<open>
  C3, as the scripts have it: outside update mode the two variants leave the same
  messages in session state, write the same texts to the page, leave the same files and
  enter the same branch, provided that in retrieval mode \<open>bedrock_kb_retrieval\<close> (called
  by \<open>App\<close>) and \<open>bedrock_kb_retrieval_advanced\<close> (called by \<open>Src\<close>) return the same text for
  the submitted prompt. In generation mode nothing is assumed of the helpers.
\<close>

theorem variants_agree_outside_update:
  assumes "\<not> fst (rag_flags (rag_on w))"
    and "\<forall>p. submitted w p \<and> snd (rag_flags (rag_on w)) \<longrightarrow>
           bedrock_kb_retrieval h p (option w) =
           bedrock_kb_retrieval_advanced h p (option w) (max_token w) (temperature w)
             (top_p w) (top_k w) (stop_sequences w)"
  shows "messages (final (home App h w s)) = messages (final (home Src h w s)) \<and>
         shown (final (home App h w s)) = shown (final (home Src h w s)) \<and>
         files (final (home App h w s)) = files (final (home Src h w s)) \<and>
         entered (final (home App h w s)) = entered (final (home Src h w s)) \<and>
         raised (home App h w s) = raised (home Src h w s)"
proof (cases "button_raises w s")
  case True
  then show ?thesis
    using home_raises [of w s App h] home_raises [of w s Src h]
    by (simp add: read_config_def log_call_def Let_def)
next
  case nr: False
  consider "rag_flags (rag_on w) = (False, True)" | "rag_flags (rag_on w) = (False, False)"
    using assms(1) by (cases "rag_on w" rule: rag_flags_cases) auto
  then show ?thesis
  proof cases
    case 1
    show ?thesis
    proof (cases "\<exists>p. submitted w p")
      case True
      then obtain p where p: "submitted w p" ..
      with assms(2) 1 have "bedrock_kb_retrieval h p (option w) =
           bedrock_kb_retrieval_advanced h p (option w) (max_token w) (temperature w)
             (top_p w) (top_k w) (stop_sequences w)"
        by simp
      then show ?thesis
        using home_retrieval_app [OF nr 1 p, of h] home_retrieval_src [OF nr 1 p, of h]
        by simp
    next
      case False
      then show ?thesis
        using home_idle [OF nr 1, of App h] home_idle [OF nr 1, of Src h] by simp
    qed
  next
    case 2
    show ?thesis
    proof (cases "\<exists>p. submitted w p")
      case True
      then obtain p where p: "submitted w p" ..
      then show ?thesis
        using home_generation [OF nr 2 p, of App h] home_generation [OF nr 2 p, of Src h]
        by simp
    next
      case False
      then show ?thesis
        using home_idle [OF nr 2, of App h] home_idle [OF nr 2, of Src h] by simp
    qed
  qed
qed

text \<open>Retrieval mode with the sample helpers, whose two retrieval helpers agree.\<close>

theorem variants_agree_outside_update_witness:
  "\<not> fst (rag_flags (rag_on (sample_widgets ''Retrieval'' (Some ''hi'')))) \<and>
   bedrock_kb_retrieval sample_helpers ''hi''
       (option (sample_widgets ''Retrieval'' (Some ''hi''))) =
     bedrock_kb_retrieval_advanced sample_helpers ''hi''
       (option (sample_widgets ''Retrieval'' (Some ''hi'')))
       (max_token (sample_widgets ''Retrieval'' (Some ''hi'')))
       (temperature (sample_widgets ''Retrieval'' (Some ''hi'')))
       (top_p (sample_widgets ''Retrieval'' (Some ''hi'')))
       (top_k (sample_widgets ''Retrieval'' (Some ''hi'')))
       (stop_sequences (sample_widgets ''Retrieval'' (Some ''hi''))) \<and>
   messages (final (home App sample_helpers (sample_widgets ''Retrieval'' (Some ''hi''))
       fresh_session)) =
     messages (final (home Src sample_helpers (sample_widgets ''Retrieval'' (Some ''hi''))
       fresh_session))"
proof -
  let ?w = "sample_widgets ''Retrieval'' (Some ''hi'')"
  have a: "\<not> fst (rag_flags (rag_on ?w))"
    by (simp add: sample_widgets_def rag_flags_slider)
  have e: "bedrock_kb_retrieval sample_helpers p (option ?w) =
     bedrock_kb_retrieval_advanced sample_helpers p (option ?w) (max_token ?w)
       (temperature ?w) (top_p ?w) (top_k ?w) (stop_sequences ?w)" for p
    by (simp add: sample_helpers_def)
  have b: "\<forall>p. submitted ?w p \<and> snd (rag_flags (rag_on ?w)) \<longrightarrow>
     bedrock_kb_retrieval sample_helpers p (option ?w) =
     bedrock_kb_retrieval_advanced sample_helpers p (option ?w) (max_token ?w)
       (temperature ?w) (top_p ?w) (top_k ?w) (stop_sequences ?w)"
    using e by blast
  show ?thesis
    by (intro conjI a e conjunct1 [OF variants_agree_outside_update [OF a b]])
qed

text \<open>
  C3 as stated fails in update mode. With the sample inputs (slider on \<open>Update\<close>, nothing
  uploaded, fresh session) \<open>App\<close> appends the message that \<open>bedrock_kb_injection()\<close>
  returned, and \<open>Src\<close> appends nothing.
\<close>

theorem variants_differ_in_update_mode:
  "messages (final (home App sample_helpers (sample_widgets ''Update'' None) fresh_session)) =
     Some [greeting, \<lparr>role = ''assistant'', content = ''Injection finished''\<rparr>] \<and>
   messages (final (home Src sample_helpers (sample_widgets ''Update'' None) fresh_session)) =
     Some [greeting] \<and>
   messages (final (home App sample_helpers (sample_widgets ''Update'' None) fresh_session)) \<noteq>
   messages (final (home Src sample_helpers (sample_widgets ''Update'' None) fresh_session))"
proof -
  let ?w = "sample_widgets ''Update'' None"
  have nr: "\<not> button_raises ?w fresh_session"
    by (simp add: button_raises_def sample_widgets_def)
  have fl: "rag_flags (rag_on ?w) = (True, False)"
    by (simp add: sample_widgets_def rag_flags_slider)
  have up: "upload_docs ?w = []"
    by (simp add: sample_widgets_def)
  have hd: "history_at_dispatch ?w fresh_session = [greeting]"
    by (simp add: history_at_dispatch_eq fresh_session_def sample_widgets_def)
  have a: "messages (final (home App sample_helpers ?w fresh_session)) =
     Some [greeting, \<lparr>role = ''assistant'', content = ''Injection finished''\<rparr>]"
    using home_update_app [OF nr fl, of sample_helpers]
    by (simp add: hd sample_helpers_def)
  have b: "messages (final (home Src sample_helpers ?w fresh_session)) = Some [greeting]"
    using home_update_src_empty [OF nr fl up, of sample_helpers]
    by (simp add: hd)
  show ?thesis
    unfolding a b by simp
qed

subsection \<open>Which helpers are called\<close>




subsection \<open>Determinism\<close>

lemma history_at_dispatch_cong:
  "messages s1 = messages s2 \<Longrightarrow> history_at_dispatch w s1 = history_at_dispatch w s2"
  by (simp add: history_at_dispatch_eq)

text \<open>
  C9, as the scripts have it: the message list at the end of a run is determined by the
  widget values, the message list at the start, the values the helpers return and, in
  the update branch of \<open>Src\<close>, by whether the uploads can be written. Two runs of the same
  variant with the same widget values, the same initial messages and helpers that return
  the same values end with the same message list, and either both raise or neither
  does, provided that in update mode of \<open>Src\<close> the uploads can be written in both runs or
  in neither. The two runs may start from different files and logs, and
  \<open>empty_directory\<close> may treat the files differently.
\<close>

theorem run_deterministic_given_writes:
  assumes "messages s1 = messages s2" and "same_returns h1 h2"
    and "v = Src \<and> fst (rag_flags (rag_on w)) \<longrightarrow>
           uploads_writable h1 w s1 = uploads_writable h2 w s2"
  shows "messages (final (home v h1 w s1)) = messages (final (home v h2 w s2)) \<and>
         raised (home v h1 w s1) = raised (home v h2 w s2)"
proof (cases "button_raises w s1")
  case True
  then have "button_raises w s2"
    using assms(1) by (simp add: button_raises_def)
  with True show ?thesis
    using assms(1) by (simp add: home_raises read_config_def log_call_def Let_def)
next
  case nr1: False
  then have nr2: "\<not> button_raises w s2"
    using assms(1) by (simp add: button_raises_def)
  note hd = history_at_dispatch_cong [OF assms(1), of w]
  show ?thesis
  proof (cases "rag_on w" rule: rag_flags_cases)
    case 1
    show ?thesis
    proof (cases v)
      case App
      show ?thesis
        using home_update_app [OF nr1 1, of h1] home_update_app [OF nr2 1, of h2] assms(2)
        unfolding App by (simp add: hd same_returns_def)
    next
      case Src
      show ?thesis
      proof (cases "upload_docs w = []")
        case True
        then show ?thesis
          using home_update_src_empty [OF nr1 1 True, of h1]
            home_update_src_empty [OF nr2 1 True, of h2]
          unfolding Src by (simp add: hd)
      next
        case ne: False
        have same: "uploads_writable h1 w s1 = uploads_writable h2 w s2"
          using assms(3) Src 1 by simp
        show ?thesis
        proof (cases "uploads_writable h1 w s1")
          case True
          with same have "uploads_writable h2 w s2" by simp
          then show ?thesis
            using home_update_src(1,4) [OF nr1 1 ne True]
              home_update_src(1,4) [OF nr2 1 ne, of h2] assms(2)
            unfolding Src by (simp add: hd same_returns_def)
        next
          case False
          with same have "\<not> uploads_writable h2 w s2" by simp
          then show ?thesis
            using home_update_src_failed(1,4) [OF nr1 1 ne False]
              home_update_src_failed(1,4) [OF nr2 1 ne, of h2]
            unfolding Src by (simp add: hd)
        qed
      qed
    qed
  next
    case 2
    show ?thesis
    proof (cases "\<exists>p. submitted w p")
      case True
      then obtain p where p: "submitted w p" ..
      show ?thesis
        using home_retrieval_app [OF nr1 2 p, of h1] home_retrieval_app [OF nr2 2 p, of h2]
          home_retrieval_src [OF nr1 2 p, of h1] home_retrieval_src [OF nr2 2 p, of h2]
          assms(2)
        by (cases v) (simp_all add: hd same_returns_def)
    next
      case False
      then show ?thesis
        using home_idle [OF nr1 2, of v h1] home_idle [OF nr2 2, of v h2]
        by (simp add: hd)
    qed
  next
    case 3
    show ?thesis
    proof (cases "\<exists>p. submitted w p")
      case True
      then obtain p where p: "submitted w p" ..
      show ?thesis
        using home_generation [OF nr1 3 p, of v h1] home_generation [OF nr2 3 p, of v h2]
          assms(2)
        by (simp add: hd same_returns_def)
    next
      case False
      then show ?thesis
        using home_idle [OF nr1 3, of v h1] home_idle [OF nr2 3, of v h2]
        by (simp add: hd)
    qed
  qed
qed

text \<open>
  Two runs of \<open>Src\<close> in update mode with one upload. They start from different files,
  and \<open>empty_directory\<close> clears the directory in the first and leaves it in the second;
  the upload can be written in both.
\<close>

theorem run_deterministic_given_writes_witness:
  "messages fresh_session =
     messages (fresh_session\<lparr>files := no_files\<lparr>contents := [''./data/old.pdf'' \<mapsto> ''old'']\<rparr>\<rparr>) \<and>
   same_returns sample_helpers (sample_helpers\<lparr>empty_directory := (\<lambda>path fs. fs)\<rparr>) \<and>
   uploads_writable sample_helpers sample_upload fresh_session =
     uploads_writable (sample_helpers\<lparr>empty_directory := (\<lambda>path fs. fs)\<rparr>) sample_upload
       (fresh_session\<lparr>files := no_files\<lparr>contents := [''./data/old.pdf'' \<mapsto> ''old'']\<rparr>\<rparr>) \<and>
   messages (final (home Src sample_helpers sample_upload fresh_session)) =
   messages (final (home Src (sample_helpers\<lparr>empty_directory := (\<lambda>path fs. fs)\<rparr>)
     sample_upload
     (fresh_session\<lparr>files := no_files\<lparr>contents := [''./data/old.pdf'' \<mapsto> ''old'']\<rparr>\<rparr>)))"
proof -
  let ?h = "sample_helpers\<lparr>empty_directory := (\<lambda>path fs. fs)\<rparr>"
  let ?s = "fresh_session\<lparr>files := no_files\<lparr>contents := [''./data/old.pdf'' \<mapsto> ''old'']\<rparr>\<rparr>"
  have a: "messages fresh_session = messages ?s"
    by simp
  have b: "same_returns sample_helpers ?h"
    by (simp add: same_returns_def)
  have c: "uploads_writable sample_helpers sample_upload fresh_session =
     uploads_writable ?h sample_upload ?s"
    by (simp add: uploads_writable_def sample_upload_def sample_widgets_def sample_helpers_def
        fresh_session_def no_files_def)
  have c': "Src = Src \<and> fst (rag_flags (rag_on sample_upload)) \<longrightarrow>
     uploads_writable sample_helpers sample_upload fresh_session =
     uploads_writable ?h sample_upload ?s"
    by (intro impI) (rule c)
  show ?thesis
    by (intro conjI a b c conjunct1 [OF run_deterministic_given_writes [OF a b c']])
qed

text \<open>
  C9 as stated fails: the widget values, the session state and the helper results do
  not fix the outcome. \<open>Src\<close>, update mode, one upload \<open>a.pdf\<close>, the same fresh session and
  the same helpers in both runs. Where \<^verbatim>\<open>./data/a.pdf\<close> can be written the run appends the
  status line; where opening it raises (the directory \<^verbatim>\<open>./data\<close> is missing or read-only,
  say) the run stops in the loop and appends nothing.
\<close>

theorem messages_depend_on_file_system:
  "messages fresh_session =
     messages (fresh_session\<lparr>files := no_files\<lparr>unwritable := {''./data/a.pdf''}\<rparr>\<rparr>) \<and>
   messages (final (home Src sample_helpers sample_upload fresh_session)) =
     Some [greeting, \<lparr>role = ''assistant'',
       content = ''Total 3 files  to Amazon Bedrock Knowledge Base: KB1  with status: COMPLETE.''\<rparr>] \<and>
   messages (final (home Src sample_helpers sample_upload
       (fresh_session\<lparr>files := no_files\<lparr>unwritable := {''./data/a.pdf''}\<rparr>\<rparr>))) =
     Some [greeting] \<and>
   messages (final (home Src sample_helpers sample_upload fresh_session)) \<noteq>
   messages (final (home Src sample_helpers sample_upload
       (fresh_session\<lparr>files := no_files\<lparr>unwritable := {''./data/a.pdf''}\<rparr>\<rparr>)))"
proof -
  let ?s = "fresh_session\<lparr>files := no_files\<lparr>unwritable := {''./data/a.pdf''}\<rparr>\<rparr>"
  have m: "messages fresh_session = messages ?s"
    by simp
  have nr1: "\<not> button_raises sample_upload fresh_session"
    by (simp add: button_raises_def sample_upload_def sample_widgets_def)
  have nr2: "\<not> button_raises sample_upload ?s"
    by (simp add: button_raises_def sample_upload_def sample_widgets_def)
  have fl: "rag_flags (rag_on sample_upload) = (True, False)"
    by (simp add: sample_upload_def sample_widgets_def rag_flags_slider)
  have ne: "upload_docs sample_upload \<noteq> []"
    by (simp add: sample_upload_def)
  have w1: "uploads_writable sample_helpers sample_upload fresh_session"
    by (simp add: uploads_writable_def sample_upload_def sample_widgets_def sample_helpers_def
        fresh_session_def no_files_def)
  have w2: "\<not> uploads_writable sample_helpers sample_upload ?s"
    by (simp add: uploads_writable_def sample_upload_def sample_widgets_def sample_helpers_def
        fresh_session_def no_files_def file_path_def)
  have h1: "history_at_dispatch sample_upload fresh_session = [greeting]"
    by (simp add: history_at_dispatch_eq fresh_session_def sample_upload_def sample_widgets_def)
  have h2: "history_at_dispatch sample_upload ?s = [greeting]"
    by (simp add: history_at_dispatch_eq fresh_session_def sample_upload_def sample_widgets_def)
  have a: "messages (final (home Src sample_helpers sample_upload fresh_session)) =
     Some [greeting, \<lparr>role = ''assistant'',
       content = ''Total 3 files  to Amazon Bedrock Knowledge Base: KB1  with status: COMPLETE.''\<rparr>]"
    using home_update_src(1) [OF nr1 fl ne w1]
    by (simp add: h1 sample_helpers_def)
  have b: "messages (final (home Src sample_helpers sample_upload ?s)) = Some [greeting]"
    using home_update_src_failed(1) [OF nr2 fl ne w2]
    by (simp only: h2)
  have d: "messages (final (home Src sample_helpers sample_upload fresh_session)) \<noteq>
     messages (final (home Src sample_helpers sample_upload ?s))"
    unfolding a b by simp
  show ?thesis
    by (intro conjI m a b d)
qed

end
